theory Spec2Isabelle
  imports Complex_Main "HOL-Library.AList"
begin

section \<open>Values that cross the bridge\<close>

text \<open>
  The JavaScript facade (\<^verbatim>\<open>index.js\<close>) hands a text and an options object to a native
  module: \<^verbatim>\<open>ReactNativeTextMeasureModule.java\<close> on Android, \<^verbatim>\<open>ReactNativeTextMeasure.m\<close>
  on iOS. An options object is the list of its entries, in the order of
  \<^verbatim>\<open>Object.entries\<close>. Numbers are exact rationals: the rounding of Java's \<^verbatim>\<open>float\<close> and of
  \<^verbatim>\<open>CGFloat\<close>, NaN and the infinities are outside this model. Strings are byte strings.
\<close>

datatype jsvalue = JUndefined | JNull | JBoolean bool | JNumber rat | JString string

type_synonym js_object = "(string \<times> jsvalue) list"

text \<open>A Java \<^verbatim>\<open>Exception\<close> or an \<^verbatim>\<open>NSException\<close>, with its nullable message (reason).\<close>

datatype exn = Exception (getMessage: "string option")

definition try_bind :: "exn + 'a \<Rightarrow> ('a \<Rightarrow> exn + 'b) \<Rightarrow> exn + 'b" where
  "try_bind m f = (case m of Inl e \<Rightarrow> Inl e | Inr x \<Rightarrow> f x)"

text \<open>The outcome of the promise handed to the non-blocking entry point.\<close>

datatype promise = Resolved js_object | Rejected string "string option"

section \<open>The facade: index.js\<close>

text \<open>
  \<^verbatim>\<open>sanitize\<close>: a fresh object \<^verbatim>\<open>out\<close> receives \<^verbatim>\<open>out[key] = value\<close> for every entry whose
  value is neither \<^verbatim>\<open>undefined\<close> nor \<^verbatim>\<open>null\<close>. On the plain object \<^verbatim>\<open>out\<close> the assignment
  to the key \<^verbatim>\<open>__proto__\<close> is the setter of the prototype, which ignores a boolean, a number
  and a string: an own entry of that name in the options makes no entry in \<^verbatim>\<open>out\<close>.
\<close>

definition sanitize_step :: "js_object \<Rightarrow> string \<times> jsvalue \<Rightarrow> js_object" where
  "sanitize_step out entry =
     (case entry of (key, value) \<Rightarrow>
        if value \<noteq> JUndefined \<and> value \<noteq> JNull then
          (if key = ''__proto__'' then out else AList.update key value out)
        else out)"

definition sanitize :: "js_object \<Rightarrow> js_object" where
  "sanitize options = foldl sanitize_step [] options"

section \<open>Java helpers\<close>

definition Integer_MAX_VALUE :: int where
  "Integer_MAX_VALUE = 2147483647"

definition Integer_MIN_VALUE :: int where
  "Integer_MIN_VALUE = - 2147483648"

text \<open>\<^verbatim>\<open>Math.round(float)\<close>: the floor of the argument plus one half, saturating at the
  bounds of \<^verbatim>\<open>int\<close>.\<close>

definition Math_round :: "rat \<Rightarrow> int" where
  "Math_round x = max Integer_MIN_VALUE (min Integer_MAX_VALUE \<lfloor>x + 1 / 2\<rfloor>)"

text \<open>The narrowing of a \<^verbatim>\<open>double\<close> to \<^verbatim>\<open>int\<close>: towards zero, saturating.\<close>

definition double_to_int :: "rat \<Rightarrow> int" where
  "double_to_int d =
     max Integer_MIN_VALUE (min Integer_MAX_VALUE (if 0 \<le> d then \<lfloor>d\<rfloor> else \<lceil>d\<rceil>))"

text \<open>\<^verbatim>\<open>String.equalsIgnoreCase\<close> against an ASCII literal: letters A to Z are folded, every
  other byte is compared as it is.\<close>

definition ascii_lower :: "char \<Rightarrow> char" where
  "ascii_lower c =
     (case map_of (zip ''ABCDEFGHIJKLMNOPQRSTUVWXYZ'' ''abcdefghijklmnopqrstuvwxyz'') c of
        Some l \<Rightarrow> l
      | None \<Rightarrow> c)"

definition equalsIgnoreCase :: "string \<Rightarrow> string option \<Rightarrow> bool" where
  "equalsIgnoreCase lit other =
     (case other of
        None \<Rightarrow> False
      | Some s \<Rightarrow> map ascii_lower lit = map ascii_lower s)"

text \<open>\<^verbatim>\<open>String.trim\<close>: leading and trailing characters up to U+0020 are dropped.\<close>

definition is_space :: "char \<Rightarrow> bool" where
  "is_space c = ((of_char c :: nat) \<le> 32)"

definition trim :: "string \<Rightarrow> string" where
  "trim s = rev (dropWhile is_space (rev (dropWhile is_space s)))"

text \<open>\<^verbatim>\<open>Integer.parseInt\<close>: an optional sign, then at least one decimal digit, the value in
  the range of \<^verbatim>\<open>int\<close>. \<open>None\<close> is the \<^verbatim>\<open>NumberFormatException\<close>. Only ASCII digits are
  read as digits.\<close>

definition digit :: "char \<Rightarrow> nat option" where
  "digit c = map_of (zip ''0123456789'' [0, 1, 2, 3, 4, 5, 6, 7, 8, 9]) c"

fun parse_digits :: "string \<Rightarrow> nat \<Rightarrow> nat option" where
  "parse_digits [] acc = Some acc"
| "parse_digits (c # cs) acc =
     (case digit c of
        None \<Rightarrow> None
      | Some d \<Rightarrow> parse_digits cs (acc * 10 + d))"

definition parse_magnitude :: "string \<Rightarrow> nat option" where
  "parse_magnitude s = (if s = [] then None else parse_digits s 0)"

definition parseInt :: "string \<Rightarrow> int option" where
  "parseInt s =
     (case s of
        [] \<Rightarrow> None
      | c # cs \<Rightarrow>
          if c = CHR ''-'' then
            (case parse_magnitude cs of
               None \<Rightarrow> None
             | Some n \<Rightarrow> if - int n < Integer_MIN_VALUE then None else Some (- int n))
          else
            (case parse_magnitude (if c = CHR ''+'' then cs else s) of
               None \<Rightarrow> None
             | Some n \<Rightarrow> if Integer_MAX_VALUE < int n then None else Some (int n)))"

section \<open>Android: ReactNativeTextMeasureModule.java\<close>

subsection \<open>ReadableMap helpers\<close>

definition hasKey :: "js_object \<Rightarrow> string \<Rightarrow> bool" where
  "hasKey m key = (map_of m key \<noteq> None)"

definition isNull :: "js_object \<Rightarrow> string \<Rightarrow> bool" where
  "isNull m key = (map_of m key = Some JNull \<or> map_of m key = Some JUndefined)"

text \<open>The typed readers of \<^verbatim>\<open>ReadableMap\<close> throw on a value of another type.\<close>

definition cast_error :: "string \<Rightarrow> exn" where
  "cast_error key = Exception (Some (''Value for '' @ key @ '' cannot be cast''))"

definition getDouble :: "js_object \<Rightarrow> string \<Rightarrow> exn + rat" where
  "getDouble m key =
     (case map_of m key of
        Some (JNumber d) \<Rightarrow> Inr d
      | _ \<Rightarrow> Inl (cast_error key))"

definition getFloat :: "js_object \<Rightarrow> string \<Rightarrow> rat \<Rightarrow> exn + rat" where
  "getFloat m key def = (if hasKey m key \<and> \<not> isNull m key then getDouble m key else Inr def)"

definition getInt :: "js_object \<Rightarrow> string \<Rightarrow> int \<Rightarrow> exn + int" where
  "getInt m key def =
     (if hasKey m key \<and> \<not> isNull m key then
        (case map_of m key of
           Some (JNumber d) \<Rightarrow> Inr (double_to_int d)
         | _ \<Rightarrow> Inl (cast_error key))
      else Inr def)"

definition getBool :: "js_object \<Rightarrow> string \<Rightarrow> bool \<Rightarrow> exn + bool" where
  "getBool m key def =
     (if hasKey m key \<and> \<not> isNull m key then
        (case map_of m key of
           Some (JBoolean b) \<Rightarrow> Inr b
         | _ \<Rightarrow> Inl (cast_error key))
      else Inr def)"

definition getString :: "js_object \<Rightarrow> string \<Rightarrow> string option \<Rightarrow> exn + string option" where
  "getString m key def =
     (if hasKey m key \<and> \<not> isNull m key then
        (case map_of m key of
           Some (JString s) \<Rightarrow> Inr (Some s)
         | _ \<Rightarrow> Inl (cast_error key))
      else Inr def)"

definition numericWeightIsBold :: "string \<Rightarrow> bool" where
  "numericWeightIsBold weight =
     (case parseInt (trim weight) of
        None \<Rightarrow> False
      | Some n \<Rightarrow> 600 \<le> n)"

subsection \<open>Step 1 of performMeasure: the options\<close>

record android_options =
  fontSize :: rat
  fontFamily :: "string option"
  fontWeight :: "string option"
  fontStyle :: "string option"
  letterSpacing :: rat
  lineHeight :: rat
  maxWidth :: rat
  maxHeight :: rat
  numberOfLines :: int
  includeFontPad :: bool

definition parse_options :: "js_object \<Rightarrow> exn + android_options" where
  "parse_options options =
     try_bind (getFloat options ''fontSize'' 14) (\<lambda>fontSize.
     try_bind (getString options ''fontFamily'' None) (\<lambda>fontFamily.
     try_bind (getString options ''fontWeight'' (Some ''normal'')) (\<lambda>fontWeight.
     try_bind (getString options ''fontStyle'' (Some ''normal'')) (\<lambda>fontStyle.
     try_bind (getFloat options ''letterSpacing'' 0) (\<lambda>letterSpacing.
     try_bind (getFloat options ''lineHeight'' 0) (\<lambda>lineHeight.
     try_bind (getFloat options ''maxWidth'' 0) (\<lambda>maxWidth.
     try_bind (getFloat options ''maxHeight'' 0) (\<lambda>maxHeight.
     try_bind (getInt options ''numberOfLines'' 0) (\<lambda>numberOfLines.
     try_bind (getBool options ''includeFontPadding'' True) (\<lambda>includeFontPad.
     Inr \<lparr> fontSize = fontSize, fontFamily = fontFamily, fontWeight = fontWeight,
           fontStyle = fontStyle, letterSpacing = letterSpacing, lineHeight = lineHeight,
           maxWidth = maxWidth, maxHeight = maxHeight, numberOfLines = numberOfLines,
           includeFontPad = includeFontPad \<rparr>))))))))))"

subsection \<open>The platform: density, typefaces, font metrics, StaticLayout\<close>

text \<open>
  What the module calls and does not define is a parameter: the display density, the API
  level, the \<^verbatim>\<open>Typeface\<close> factory methods (a lookup may throw or return \<^verbatim>\<open>null\<close>; the
  default typeface of \<^verbatim>\<open>Typeface.create((String) null, style)\<close> always exists), the font
  metrics of a paint, and the layout engine, which may throw. A laid-out text is the list
  of its line widths, \<^verbatim>\<open>getLineWidth(i)\<close> for \<^verbatim>\<open>i < getLineCount()\<close>, and its height.
\<close>

datatype truncate_at = TruncateAt_END

record 'tf text_paint =
  textSize :: rat
  typeface :: 'tf
  paint_letterSpacing :: rat

record 'tf layout_request =
  via_builder :: bool
  layout_text :: string
  paint :: "'tf text_paint"
  width :: int
  includePad :: bool
  maxLines :: int
  ellipsize :: "truncate_at option"
  ellipsizedWidth :: int
  spacingAdd :: rat
  spacingMult :: rat

record static_layout =
  lineWidths :: "rat list"
  getHeight :: int

record 'tf android_env =
  density :: rat
  SDK_INT :: int
  createFromAsset :: "string \<Rightarrow> exn + 'tf option"
  create_styled :: "'tf \<Rightarrow> int \<Rightarrow> exn + 'tf"
  create_family :: "string \<Rightarrow> int \<Rightarrow> exn + 'tf option"
  create_default :: "int \<Rightarrow> 'tf"
  ascent :: "'tf text_paint \<Rightarrow> rat"
  descent :: "'tf text_paint \<Rightarrow> rat"
  StaticLayout_build :: "'tf layout_request \<Rightarrow> exn + static_layout"

definition LOLLIPOP :: int where
  "LOLLIPOP = 21"

definition M :: int where
  "M = 23"

definition Typeface_NORMAL :: int where
  "Typeface_NORMAL = 0"

definition Typeface_BOLD :: int where
  "Typeface_BOLD = 1"

definition Typeface_ITALIC :: int where
  "Typeface_ITALIC = 2"

definition Typeface_BOLD_ITALIC :: int where
  "Typeface_BOLD_ITALIC = 3"

subsection \<open>resolveTypeface\<close>

text \<open>The first \<^verbatim>\<open>try\<close> block: \<^verbatim>\<open>assets/fonts/<fontFamily>.ttf\<close>, then the style applied to
  it. Any exception is swallowed.\<close>

definition from_assets :: "'tf android_env \<Rightarrow> string \<Rightarrow> int \<Rightarrow> 'tf option" where
  "from_assets env family style =
     (case createFromAsset env (''fonts/'' @ family @ ''.ttf'') of
        Inl ignored \<Rightarrow> None
      | Inr None \<Rightarrow> None
      | Inr (Some fromAssets) \<Rightarrow>
          (case create_styled env fromAssets style of
             Inl ignored \<Rightarrow> None
           | Inr t \<Rightarrow> Some t))"

text \<open>The second \<^verbatim>\<open>try\<close> block: the family as the name of a system font.\<close>

definition from_system :: "'tf android_env \<Rightarrow> string \<Rightarrow> int \<Rightarrow> 'tf option" where
  "from_system env family style =
     (case create_family env family style of
        Inl ignored \<Rightarrow> None
      | Inr systemFont \<Rightarrow> systemFont)"

definition resolveTypeface :: "'tf android_env \<Rightarrow> string option \<Rightarrow> int \<Rightarrow> 'tf" where
  "resolveTypeface env family0 style =
     (case family0 of
        None \<Rightarrow> create_default env style
      | Some family \<Rightarrow>
          if family \<noteq> [] then
            (case from_assets env family style of
               Some t \<Rightarrow> t
             | None \<Rightarrow>
                 (case from_system env family style of
                    Some t \<Rightarrow> t
                  | None \<Rightarrow> create_default env style))
          else create_default env style)"

subsection \<open>buildStaticLayout\<close>

definition naturalLineHeight :: "'tf android_env \<Rightarrow> 'tf text_paint \<Rightarrow> rat" where
  "naturalLineHeight env p = - ascent env p + descent env p"

definition buildStaticLayout ::
  "'tf android_env \<Rightarrow> string \<Rightarrow> 'tf text_paint \<Rightarrow> int \<Rightarrow> rat \<Rightarrow> int \<Rightarrow> bool
     \<Rightarrow> 'tf layout_request" where
  "buildStaticLayout env text p maxWidthPx lineHeightPx nLines fontPad =
     (if M \<le> SDK_INT env then
        \<lparr> via_builder = True, layout_text = text, paint = p, width = maxWidthPx,
          includePad = fontPad,
          maxLines = (if 0 < nLines then nLines else Integer_MAX_VALUE),
          ellipsize = (if 0 < nLines then Some TruncateAt_END else None),
          ellipsizedWidth = maxWidthPx,
          spacingAdd = (if 0 < lineHeightPx then lineHeightPx - naturalLineHeight env p else 0),
          spacingMult = 1 \<rparr>
      else
        \<lparr> via_builder = False, layout_text = text, paint = p, width = maxWidthPx,
          includePad = fontPad,
          maxLines = Integer_MAX_VALUE,
          ellipsize = (if 0 < nLines then Some TruncateAt_END else None),
          ellipsizedWidth = maxWidthPx,
          spacingAdd = (if 0 < lineHeightPx then lineHeightPx - naturalLineHeight env p else 0),
          spacingMult = 1 \<rparr>)"

subsection \<open>performMeasure\<close>

text \<open>Step 2: \<^verbatim>\<open>(maxWidth > 0) ? Math.round(maxWidth * density) : Integer.MAX_VALUE\<close>, and the
  same for the height.\<close>

definition px_limit :: "rat \<Rightarrow> rat \<Rightarrow> int" where
  "px_limit dp dens = (if 0 < dp then Math_round (dp * dens) else Integer_MAX_VALUE)"

text \<open>Step 3: \<^verbatim>\<open>"bold".equalsIgnoreCase(fontWeight) || numericWeightIsBold(fontWeight)\<close>;
  the second operand dereferences the weight.\<close>

definition isBold_of :: "string option \<Rightarrow> exn + bool" where
  "isBold_of weight =
     (if equalsIgnoreCase ''bold'' weight then Inr True
      else
        (case weight of
           None \<Rightarrow> Inl (Exception (Some ''NullPointerException''))
         | Some w \<Rightarrow> Inr (numericWeightIsBold w)))"

definition typefaceStyle_of :: "bool \<Rightarrow> bool \<Rightarrow> int" where
  "typefaceStyle_of isBold isItalic =
     (if isBold \<and> isItalic then Typeface_BOLD_ITALIC
      else if isBold then Typeface_BOLD
      else if isItalic then Typeface_ITALIC
      else Typeface_NORMAL)"

text \<open>Step 4: the paint. The letter spacing is set, as a fraction of the font size, from
  API 21 on and when it is not zero.\<close>

definition build_paint :: "'tf android_env \<Rightarrow> android_options \<Rightarrow> 'tf \<Rightarrow> 'tf text_paint" where
  "build_paint env opts face =
     (let fontSizePx = fontSize opts * density env in
      \<lparr> textSize = fontSizePx, typeface = face,
        paint_letterSpacing =
          (if LOLLIPOP \<le> SDK_INT env \<and> letterSpacing opts \<noteq> 0
           then (letterSpacing opts * density env) / fontSizePx else 0) \<rparr>)"

text \<open>The loop of step 6 over the lines: the widest line, starting from 0.\<close>

fun widest :: "rat list \<Rightarrow> rat \<Rightarrow> rat" where
  "widest [] measuredWidth = measuredWidth"
| "widest (lineWidth # rest) measuredWidth =
     widest rest (if measuredWidth < lineWidth then lineWidth else measuredWidth)"

text \<open>Steps 2 to 5: the request handed to the engine for parsed options.\<close>

definition layout_request_of ::
  "'tf android_env \<Rightarrow> string \<Rightarrow> android_options \<Rightarrow> exn + 'tf layout_request" where
  "layout_request_of env text opts =
     try_bind (isBold_of (fontWeight opts)) (\<lambda>isBold.
       let lineHeightPx = lineHeight opts * density env;
           maxWidthPx = px_limit (maxWidth opts) (density env);
           isItalic = equalsIgnoreCase ''italic'' (fontStyle opts);
           face = resolveTypeface env (fontFamily opts) (typefaceStyle_of isBold isItalic);
           p = build_paint env opts face
       in Inr (buildStaticLayout env text p maxWidthPx lineHeightPx (numberOfLines opts)
                 (includeFontPad opts)))"

text \<open>Steps 6 and 7: the dimensions read from the layout, the clamp, and the result map.\<close>

definition extract_result :: "'tf android_env \<Rightarrow> android_options \<Rightarrow> static_layout \<Rightarrow> js_object" where
  "extract_result env opts layout =
     (let maxHeightPx = px_limit (maxHeight opts) (density env);
          lineCount = int (length (lineWidths layout));
          measuredHeight0 = of_int (getHeight layout);
          measuredWidth = widest (lineWidths layout) 0;
          measuredHeight =
            (if maxHeightPx \<noteq> Integer_MAX_VALUE \<and> of_int maxHeightPx < measuredHeight0
             then of_int maxHeightPx else measuredHeight0)
      in [(''width'', JNumber (measuredWidth / density env)),
          (''height'', JNumber (measuredHeight / density env)),
          (''lineCount'', JNumber (of_int lineCount))])"

definition performMeasure ::
  "'tf android_env \<Rightarrow> string option \<Rightarrow> js_object option \<Rightarrow> exn + js_object" where
  "performMeasure env text0 options0 =
     (let text = (case text0 of None \<Rightarrow> [] | Some t \<Rightarrow> t);
          options = (case options0 of None \<Rightarrow> [] | Some m \<Rightarrow> m)
      in try_bind (parse_options options) (\<lambda>opts.
         try_bind (layout_request_of env text opts) (\<lambda>request.
         try_bind (StaticLayout_build env request) (\<lambda>layout.
         Inr (extract_result env opts layout)))))"

subsection \<open>The two entry points\<close>

definition android_measureText ::
  "'tf android_env \<Rightarrow> string option \<Rightarrow> js_object option \<Rightarrow> promise" where
  "android_measureText env text options =
     (case performMeasure env text options of
        Inr result \<Rightarrow> Resolved result
      | Inl e \<Rightarrow> Rejected ''MEASURE_ERROR'' (getMessage e))"

definition android_measureTextSync ::
  "'tf android_env \<Rightarrow> string option \<Rightarrow> js_object option \<Rightarrow> js_object" where
  "android_measureTextSync env text options =
     (case performMeasure env text options of
        Inr result \<Rightarrow> result
      | Inl e \<Rightarrow>
          [(''error'', (case getMessage e of None \<Rightarrow> JNull | Some msg \<Rightarrow> JString msg))])"

section \<open>iOS: ReactNativeTextMeasure.m\<close>

subsection \<open>The platform: UIKit fonts and TextKit\<close>

text \<open>
  The constants of UIKit the file names, with UIKit's values. \<^verbatim>\<open>CGFLOAT_MAX\<close> is the
  largest finite double.
\<close>

definition CGFLOAT_MAX :: rat where
  "CGFLOAT_MAX = 2 ^ 1024 - 2 ^ 971"

definition UIFontWeightUltraLight :: rat where
  "UIFontWeightUltraLight = - 8 / 10"

definition UIFontWeightThin :: rat where
  "UIFontWeightThin = - 6 / 10"

definition UIFontWeightLight :: rat where
  "UIFontWeightLight = - 4 / 10"

definition UIFontWeightRegular :: rat where
  "UIFontWeightRegular = 0"

definition UIFontWeightMedium :: rat where
  "UIFontWeightMedium = 23 / 100"

definition UIFontWeightSemibold :: rat where
  "UIFontWeightSemibold = 3 / 10"

definition UIFontWeightBold :: rat where
  "UIFontWeightBold = 4 / 10"

definition UIFontWeightHeavy :: rat where
  "UIFontWeightHeavy = 56 / 100"

definition UIFontWeightBlack :: rat where
  "UIFontWeightBlack = 62 / 100"

datatype symbolic_trait = UIFontDescriptorTraitItalic | UIFontDescriptorTraitBold

datatype line_break_mode = NSLineBreakByWordWrapping | NSLineBreakByCharWrapping

record paragraph_style =
  lineBreakMode :: line_break_mode
  minimumLineHeight :: rat
  maximumLineHeight :: rat
  lineSpacing :: rat
  lineHeightMultiple :: rat

text \<open>\<^verbatim>\<open>[[NSMutableParagraphStyle alloc] init]\<close>: the default paragraph style.\<close>

definition NSMutableParagraphStyle_init :: paragraph_style where
  "NSMutableParagraphStyle_init =
     \<lparr> lineBreakMode = NSLineBreakByWordWrapping, minimumLineHeight = 0,
       maximumLineHeight = 0, lineSpacing = 0, lineHeightMultiple = 0 \<rparr>"

record 'f textkit_request =
  storage_string :: string
  attr_font :: 'f
  attr_paragraphStyle :: paragraph_style
  attr_kern :: "rat option"
  container_size :: "rat \<times> rat"
  lineFragmentPadding :: rat
  container_lineBreakMode :: line_break_mode
  maximumNumberOfLines :: nat

text \<open>What the layout manager reports after the layout pass: the size of the used
  rectangle and the line fragments of the container's glyph range.\<close>

record textkit_layout =
  usedRect_size :: "rat \<times> rat"
  lineFragments :: "(rat \<times> rat) list"

text \<open>
  The UIKit calls are parameters. A descriptor with traits may be \<^verbatim>\<open>nil\<close>; a font lookup is
  allowed to be \<^verbatim>\<open>nil\<close>, as the file's checks allow; \<^verbatim>\<open>systemFontOfSize:\<close> always gives a
  font. The metrics of a font are its ascender and its (negative) descender.
\<close>

record ('d, 'f) ios_env =
  NSString_doubleValue :: "string \<Rightarrow> rat"
  NSString_integerValue :: "string \<Rightarrow> int"
  fontDescriptorWithName :: "string \<Rightarrow> rat \<Rightarrow> 'd"
  fontDescriptorWithSymbolicTraits :: "'d \<Rightarrow> symbolic_trait set \<Rightarrow> 'd option"
  fontWithDescriptor :: "'d \<Rightarrow> rat \<Rightarrow> 'f option"
  systemFontOfSize_weight :: "rat \<Rightarrow> rat \<Rightarrow> 'f option"
  fontDescriptor :: "'f \<Rightarrow> 'd"
  systemFontOfSize :: "rat \<Rightarrow> 'f"
  ascender :: "'f \<Rightarrow> rat"
  descender :: "'f \<Rightarrow> rat"
  TextKit_layout :: "'f textkit_request \<Rightarrow> exn + textkit_layout"

subsection \<open>Step 1 of RNTMPerformMeasure: the options\<close>

definition unrecognized_selector :: "string \<Rightarrow> exn" where
  "unrecognized_selector sel = Exception (Some (sel @ '': unrecognized selector sent to instance''))"

text \<open>\<^verbatim>\<open>doubleValue\<close> and \<^verbatim>\<open>integerValue\<close> are answered by numbers, booleans and strings;
  \<^verbatim>\<open>NSNull\<close> does not respond.\<close>

definition doubleValue :: "('d, 'f) ios_env \<Rightarrow> jsvalue \<Rightarrow> exn + rat" where
  "doubleValue env v =
     (case v of
        JNumber d \<Rightarrow> Inr d
      | JBoolean b \<Rightarrow> Inr (if b then 1 else 0)
      | JString s \<Rightarrow> Inr (NSString_doubleValue env s)
      | _ \<Rightarrow> Inl (unrecognized_selector ''doubleValue''))"

definition integerValue :: "('d, 'f) ios_env \<Rightarrow> jsvalue \<Rightarrow> exn + int" where
  "integerValue env v =
     (case v of
        JNumber d \<Rightarrow> Inr (if 0 \<le> d then \<lfloor>d\<rfloor> else \<lceil>d\<rceil>)
      | JBoolean b \<Rightarrow> Inr (if b then 1 else 0)
      | JString s \<Rightarrow> Inr (NSString_integerValue env s)
      | _ \<Rightarrow> Inl (unrecognized_selector ''integerValue''))"

text \<open>\<^verbatim>\<open>options[key] ? [options[key] doubleValue] : def\<close>.\<close>

definition double_option :: "('d, 'f) ios_env \<Rightarrow> js_object \<Rightarrow> string \<Rightarrow> rat \<Rightarrow> exn + rat" where
  "double_option env options key def =
     (case map_of options key of
        None \<Rightarrow> Inr def
      | Some v \<Rightarrow> doubleValue env v)"

definition integer_option :: "('d, 'f) ios_env \<Rightarrow> js_object \<Rightarrow> string \<Rightarrow> int \<Rightarrow> exn + int" where
  "integer_option env options key def =
     (case map_of options key of
        None \<Rightarrow> Inr def
      | Some v \<Rightarrow> integerValue env v)"

text \<open>\<^verbatim>\<open>options[key] ?: def\<close>.\<close>

definition object_option :: "js_object \<Rightarrow> string \<Rightarrow> jsvalue \<Rightarrow> jsvalue" where
  "object_option options key def =
     (case map_of options key of
        None \<Rightarrow> def
      | Some v \<Rightarrow> v)"

record ios_options =
  ios_fontSize :: rat
  ios_fontFamily :: "jsvalue option"
  ios_fontWeight :: jsvalue
  ios_fontStyle :: jsvalue
  ios_letterSpacing :: rat
  ios_lineHeight :: rat
  ios_maxWidth :: rat
  ios_maxHeight :: rat
  ios_maxLines :: int

definition ios_parse_options :: "('d, 'f) ios_env \<Rightarrow> js_object \<Rightarrow> exn + ios_options" where
  "ios_parse_options env options =
     try_bind (double_option env options ''fontSize'' 14) (\<lambda>fontSize.
     try_bind (double_option env options ''letterSpacing'' 0) (\<lambda>letterSpacing.
     try_bind (double_option env options ''lineHeight'' 0) (\<lambda>lineHeight.
     try_bind (double_option env options ''maxWidth'' 0) (\<lambda>maxWidth.
     try_bind (double_option env options ''maxHeight'' 0) (\<lambda>maxHeight.
     try_bind (integer_option env options ''numberOfLines'' 0) (\<lambda>maxLines.
     Inr \<lparr> ios_fontSize = fontSize,
           ios_fontFamily = map_of options ''fontFamily'',
           ios_fontWeight = object_option options ''fontWeight'' (JString ''normal''),
           ios_fontStyle = object_option options ''fontStyle'' (JString ''normal''),
           ios_letterSpacing = letterSpacing, ios_lineHeight = lineHeight,
           ios_maxWidth = maxWidth, ios_maxHeight = maxHeight,
           ios_maxLines = maxLines \<rparr>))))))"

text \<open>\<^verbatim>\<open>if (maxWidth <= 0) maxWidth = CGFLOAT_MAX\<close>, and the same for the height.\<close>

definition unbounded_if_not_positive :: "rat \<Rightarrow> rat" where
  "unbounded_if_not_positive x = (if x \<le> 0 then CGFLOAT_MAX else x)"

subsection \<open>Step 2: the font weight\<close>

definition weightMap :: "(string \<times> rat) list" where
  "weightMap =
     [(''100'', UIFontWeightUltraLight),
      (''200'', UIFontWeightThin),
      (''300'', UIFontWeightLight),
      (''400'', UIFontWeightRegular),
      (''500'', UIFontWeightMedium),
      (''600'', UIFontWeightSemibold),
      (''700'', UIFontWeightBold),
      (''800'', UIFontWeightHeavy),
      (''900'', UIFontWeightBlack),
      (''bold'', UIFontWeightBold),
      (''normal'', UIFontWeightRegular)]"

text \<open>Only a string can equal a key of the map; without an entry the weight stays
  regular.\<close>

definition resolve_uiFontWeight :: "jsvalue \<Rightarrow> rat" where
  "resolve_uiFontWeight weight =
     (case weight of
        JString w \<Rightarrow>
          (case map_of weightMap w of
             Some u \<Rightarrow> u
           | None \<Rightarrow> UIFontWeightRegular)
      | _ \<Rightarrow> UIFontWeightRegular)"

definition isEqualToString :: "jsvalue \<Rightarrow> string \<Rightarrow> exn + bool" where
  "isEqualToString v lit =
     (case v of
        JString s \<Rightarrow> Inr (s = lit)
      | _ \<Rightarrow> Inl (unrecognized_selector ''isEqualToString:''))"

text \<open>\<^verbatim>\<open>fontFamily.length > 0\<close>: \<^verbatim>\<open>nil\<close> has length 0; the result is the family to look
  up, if any.\<close>

definition nonempty_family :: "jsvalue option \<Rightarrow> exn + string option" where
  "nonempty_family family =
     (case family of
        None \<Rightarrow> Inr None
      | Some (JString s) \<Rightarrow> Inr (if 0 < length s then Some s else None)
      | Some _ \<Rightarrow> Inl (unrecognized_selector ''length''))"

subsection \<open>Step 3: the font\<close>

definition symbolic_traits :: "rat \<Rightarrow> bool \<Rightarrow> symbolic_trait set" where
  "symbolic_traits uiFontWeight isItalic =
     (if UIFontWeightBold \<le> uiFontWeight then {UIFontDescriptorTraitBold} else {})
       \<union> (if isItalic then {UIFontDescriptorTraitItalic} else {})"

definition named_font :: "('d, 'f) ios_env \<Rightarrow> string \<Rightarrow> rat \<Rightarrow> rat \<Rightarrow> bool \<Rightarrow> 'f option" where
  "named_font env family pointSize uiFontWeight isItalic =
     (let descriptor = fontDescriptorWithName env family pointSize;
          traits = symbolic_traits uiFontWeight isItalic;
          descriptor' =
            (if traits \<noteq> {} then
               (case fontDescriptorWithSymbolicTraits env descriptor traits of
                  Some traitDescriptor \<Rightarrow> traitDescriptor
                | None \<Rightarrow> descriptor)
             else descriptor)
      in fontWithDescriptor env descriptor' pointSize)"

definition system_font :: "('d, 'f) ios_env \<Rightarrow> rat \<Rightarrow> rat \<Rightarrow> bool \<Rightarrow> 'f option" where
  "system_font env pointSize uiFontWeight isItalic =
     (if isItalic then
        (case systemFontOfSize_weight env pointSize uiFontWeight of
           None \<Rightarrow> None
         | Some sys \<Rightarrow>
             (case fontDescriptorWithSymbolicTraits env (fontDescriptor env sys)
                     {UIFontDescriptorTraitItalic} of
                Some italicDesc \<Rightarrow> fontWithDescriptor env italicDesc pointSize
              | None \<Rightarrow> Some sys))
      else systemFontOfSize_weight env pointSize uiFontWeight)"

definition build_font :: "('d, 'f) ios_env \<Rightarrow> string option \<Rightarrow> rat \<Rightarrow> rat \<Rightarrow> bool \<Rightarrow> 'f" where
  "build_font env family pointSize uiFontWeight isItalic =
     (let font0 = (case family of
                     Some name \<Rightarrow> named_font env name pointSize uiFontWeight isItalic
                   | None \<Rightarrow> None);
          font1 = (case font0 of
                     Some f \<Rightarrow> Some f
                   | None \<Rightarrow> system_font env pointSize uiFontWeight isItalic)
      in (case font1 of
            Some f \<Rightarrow> f
          | None \<Rightarrow> systemFontOfSize env pointSize))"

subsection \<open>Steps 4 to 6: paragraph style, attributes, TextKit\<close>

definition build_paragraph_style :: "rat \<Rightarrow> paragraph_style" where
  "build_paragraph_style lineHeightPt =
     (let paraStyle = NSMutableParagraphStyle_init\<lparr> lineBreakMode := NSLineBreakByWordWrapping \<rparr>
      in if 0 < lineHeightPt
         then paraStyle\<lparr> minimumLineHeight := lineHeightPt, maximumLineHeight := lineHeightPt \<rparr>
         else paraStyle)"

definition textkit_request_of ::
  "('d, 'f) ios_env \<Rightarrow> string option \<Rightarrow> ios_options \<Rightarrow> exn + 'f textkit_request" where
  "textkit_request_of env text opts =
     (let maxWidthPt = unbounded_if_not_positive (ios_maxWidth opts);
          maxHeightPt = unbounded_if_not_positive (ios_maxHeight opts);
          uiFontWeight = resolve_uiFontWeight (ios_fontWeight opts)
      in try_bind (isEqualToString (ios_fontStyle opts) ''italic'') (\<lambda>isItalic.
         try_bind (nonempty_family (ios_fontFamily opts)) (\<lambda>family.
           Inr \<lparr> storage_string =
                   (case text of
                      None \<Rightarrow> []
                    | Some t \<Rightarrow> if 0 < length t then t else []),
                 attr_font = build_font env family (ios_fontSize opts) uiFontWeight isItalic,
                 attr_paragraphStyle = build_paragraph_style (ios_lineHeight opts),
                 attr_kern =
                   (if ios_letterSpacing opts \<noteq> 0 then Some (ios_letterSpacing opts) else None),
                 container_size = (maxWidthPt, maxHeightPt),
                 lineFragmentPadding = 0,
                 container_lineBreakMode = NSLineBreakByWordWrapping,
                 maximumNumberOfLines =
                   (if 0 < ios_maxLines opts then nat (ios_maxLines opts) else 0) \<rparr>)))"

text \<open>The block of \<^verbatim>\<open>enumerateLineFragmentsForGlyphRange\<close> runs once for each fragment.\<close>

fun count_fragments :: "(rat \<times> rat) list \<Rightarrow> int \<Rightarrow> int" where
  "count_fragments [] lineCount = lineCount"
| "count_fragments (fragment # rest) lineCount = count_fragments rest (lineCount + 1)"

definition ios_result :: "textkit_layout \<Rightarrow> js_object" where
  "ios_result layout =
     (let lineCount = count_fragments (lineFragments layout) 0;
          measuredWidth = \<lceil>fst (usedRect_size layout)\<rceil>;
          measuredHeight = \<lceil>snd (usedRect_size layout)\<rceil>
      in [(''width'', JNumber (of_int measuredWidth)),
          (''height'', JNumber (of_int measuredHeight)),
          (''lineCount'', JNumber (of_int lineCount))])"

definition RNTMPerformMeasure ::
  "('d, 'f) ios_env \<Rightarrow> string option \<Rightarrow> js_object \<Rightarrow> exn + js_object" where
  "RNTMPerformMeasure env text options =
     try_bind (ios_parse_options env options) (\<lambda>opts.
     try_bind (textkit_request_of env text opts) (\<lambda>request.
     try_bind (TextKit_layout env request) (\<lambda>layout.
     Inr (ios_result layout))))"

subsection \<open>The two entry points\<close>

definition ios_measureText ::
  "('d, 'f) ios_env \<Rightarrow> string option \<Rightarrow> js_object option \<Rightarrow> promise" where
  "ios_measureText env text options =
     (let capturedText = text;
          capturedOptions = options
      in case RNTMPerformMeasure env capturedText
                (case capturedOptions of None \<Rightarrow> [] | Some m \<Rightarrow> m) of
           Inr result \<Rightarrow> Resolved result
         | Inl exception \<Rightarrow> Rejected ''MEASURE_ERROR'' (getMessage exception))"

definition ios_measureTextSync ::
  "('d, 'f) ios_env \<Rightarrow> string option \<Rightarrow> js_object option \<Rightarrow> js_object" where
  "ios_measureTextSync env text options =
     (case RNTMPerformMeasure env (Some (case text of None \<Rightarrow> [] | Some t \<Rightarrow> t))
             (case options of None \<Rightarrow> [] | Some m \<Rightarrow> m) of
        Inr result \<Rightarrow> result
      | Inl exception \<Rightarrow>
          [(''error'',
            JString (case getMessage exception of
                       None \<Rightarrow> ''Unknown error''
                     | Some reason \<Rightarrow> reason))])"

section \<open>The facade's two exports\<close>

text \<open>
  \<^verbatim>\<open>measureText\<close> and \<^verbatim>\<open>measureTextSync\<close> of \<^verbatim>\<open>index.js\<close> call the method of the same name of
  the native module with \<^verbatim>\<open>String(text)\<close>, the text itself when it is a string, and the
  sanitized options.
\<close>

definition measureText :: "(string option \<Rightarrow> js_object option \<Rightarrow> 'r) \<Rightarrow> string \<Rightarrow> js_object \<Rightarrow> 'r" where
  "measureText native_measureText text options =
     native_measureText (Some text) (Some (sanitize options))"

definition measureTextSync :: "(string option \<Rightarrow> js_object option \<Rightarrow> 'r) \<Rightarrow> string \<Rightarrow> js_object \<Rightarrow> 'r" where
  "measureTextSync native_measureTextSync text options =
     native_measureTextSync (Some text) (Some (sanitize options))"

section \<open>What a caller observes\<close>

text \<open>The value a caller gets by awaiting the promise, and the value it gets from the
  blocking call once it has checked that the object has no \<^verbatim>\<open>error\<close> key.\<close>

definition resolved_value :: "promise \<Rightarrow> js_object option" where
  "resolved_value p = (case p of Resolved result \<Rightarrow> Some result | Rejected code msg \<Rightarrow> None)"

definition returned_value :: "js_object \<Rightarrow> js_object option" where
  "returned_value result = (if map_of result ''error'' = None then Some result else None)"

section \<open>Absent options\<close>

text \<open>A key is absent from an options object when every entry under that key, if there
  is one, holds \<^verbatim>\<open>undefined\<close> or \<^verbatim>\<open>null\<close>.\<close>

definition absent :: "js_object \<Rightarrow> string \<Rightarrow> bool" where
  "absent options key =
     list_all (\<lambda>(k, value). k \<noteq> key \<or> value = JUndefined \<or> value = JNull) options"

definition defined_value :: "jsvalue \<Rightarrow> bool" where
  "defined_value v = (v \<noteq> JUndefined \<and> v \<noteq> JNull)"

text \<open>The entries that \<^verbatim>\<open>sanitize\<close> keeps.\<close>

definition kept_entry :: "string \<times> jsvalue \<Rightarrow> bool" where
  "kept_entry entry = (defined_value (snd entry) \<and> fst entry \<noteq> ''__proto__'')"

section \<open>An example platform\<close>

text \<open>
  A small Android platform and a small iOS platform on which the definitions can be run.
  A typeface is its name; a font is a name and a point size. A glyph advances by half the
  font size plus the letter spacing, lines break after any glyph, and a line is as high as
  the line spacing asks for. The asset lookup always throws.
\<close>

definition example_ascent :: "rat \<Rightarrow> rat" where
  "example_ascent pointSize = - (15 / 16) * pointSize"

definition example_descent :: "rat \<Rightarrow> rat" where
  "example_descent pointSize = pointSize / 4"

definition line_lengths :: "int \<Rightarrow> int \<Rightarrow> int list" where
  "line_lengths n per =
     replicate (nat (n div per)) per @ (if n mod per = 0 then [] else [n mod per])"

definition take_lines :: "int \<Rightarrow> 'a list \<Rightarrow> 'a list" where
  "take_lines limit xs = take (nat (min limit (int (length xs)))) xs"

definition example_StaticLayout :: "string layout_request \<Rightarrow> exn + static_layout" where
  "example_StaticLayout request =
     (let pointSize = textSize (paint request);
          advance = pointSize / 2 + paint_letterSpacing (paint request) * pointSize;
          per = max 1 \<lfloor>of_int (width request) / advance\<rfloor>;
          n = int (length (layout_text request));
          lens = (if n = 0 then [0] else take_lines (maxLines request) (line_lengths n per));
          lineHeightPx = (- example_ascent pointSize + example_descent pointSize)
                           * spacingMult request + spacingAdd request
      in if width request < 0 then Inl (Exception (Some ''Layout: width < 0''))
         else Inr \<lparr> lineWidths = map (\<lambda>k. of_int k * advance) lens,
                    getHeight = \<lceil>of_nat (length lens) * lineHeightPx\<rceil> \<rparr>)"

definition example_android_env ::
  "rat \<Rightarrow> (string layout_request \<Rightarrow> exn + static_layout) \<Rightarrow> string android_env" where
  "example_android_env dens engine =
     \<lparr> density = dens, SDK_INT = 33,
       createFromAsset = (\<lambda>path. Inl (Exception (Some ''Font asset not found''))),
       create_styled = (\<lambda>face style. Inr face),
       create_family = (\<lambda>family style. Inr (Some family)),
       create_default = (\<lambda>style. ''sans-serif''),
       ascent = (\<lambda>p. example_ascent (textSize p)),
       descent = (\<lambda>p. example_descent (textSize p)),
       StaticLayout_build = engine \<rparr>"

definition example_TextKit :: "(string \<times> rat) textkit_request \<Rightarrow> exn + textkit_layout" where
  "example_TextKit request =
     (let pointSize = snd (attr_font request);
          advance = pointSize / 2 + (case attr_kern request of None \<Rightarrow> 0 | Some k \<Rightarrow> k);
          natural = - example_ascent pointSize + example_descent pointSize;
          style = attr_paragraphStyle request;
          atLeast = (if 0 < minimumLineHeight style then max natural (minimumLineHeight style)
                     else natural);
          lineHeightPt = (if 0 < maximumLineHeight style then min atLeast (maximumLineHeight style)
                          else atLeast);
          per = max 1 \<lfloor>fst (container_size request) / advance\<rfloor>;
          wrapped = line_lengths (int (length (storage_string request))) per;
          limited = (if maximumNumberOfLines request = 0 then wrapped
                     else take (maximumNumberOfLines request) wrapped);
          fitting = take_lines \<lfloor>snd (container_size request) / lineHeightPt\<rfloor> limited;
          fragments = map (\<lambda>k. (of_int k * advance, lineHeightPt)) fitting
      in Inr \<lparr> usedRect_size = (fold max (map fst fragments) 0, sum_list (map snd fragments)),
                lineFragments = fragments \<rparr>)"

definition example_ios_env ::
  "((string \<times> rat) textkit_request \<Rightarrow> exn + textkit_layout)
     \<Rightarrow> (string, string \<times> rat) ios_env" where
  "example_ios_env engine =
     \<lparr> NSString_doubleValue = (\<lambda>s. 0), NSString_integerValue = (\<lambda>s. 0),
       fontDescriptorWithName = (\<lambda>name pointSize. name),
       fontDescriptorWithSymbolicTraits =
         (\<lambda>d traits. if UIFontDescriptorTraitBold \<in> traits then Some (d @ ''-Bold'') else None),
       fontWithDescriptor = (\<lambda>d pointSize. Some (d, pointSize)),
       systemFontOfSize_weight = (\<lambda>pointSize weight. Some (''System'', pointSize)),
       fontDescriptor = fst,
       systemFontOfSize = (\<lambda>pointSize. (''System'', pointSize)),
       ascender = (\<lambda>f. - example_ascent (snd f)),
       descender = (\<lambda>f. - example_descent (snd f)),
       TextKit_layout = engine \<rparr>"

text \<open>An options object with two stripped keys, and what both platforms read from it.\<close>

definition example_options :: js_object where
  "example_options =
     [(''fontSize'', JNull), (''lineHeight'', JNumber 20), (''maxWidth'', JUndefined),
      (''fontWeight'', JString ''bold'')]"

definition example_parsed :: android_options where
  "example_parsed =
     \<lparr> fontSize = 14, fontFamily = None, fontWeight = Some ''bold'',
       fontStyle = Some ''normal'', letterSpacing = 0, lineHeight = 20, maxWidth = 0,
       maxHeight = 0, numberOfLines = 0, includeFontPad = True \<rparr>"

definition example_ios_parsed :: ios_options where
  "example_ios_parsed =
     \<lparr> ios_fontSize = 14, ios_fontFamily = None, ios_fontWeight = JString ''bold'',
       ios_fontStyle = JString ''normal'', ios_letterSpacing = 0, ios_lineHeight = 20,
       ios_maxWidth = 0, ios_maxHeight = 0, ios_maxLines = 0 \<rparr>"

text \<open>Options whose maximal width is 0 and whose maximal height is absent.\<close>

definition example_unbounded :: js_object where
  "example_unbounded = [(''fontSize'', JNumber 16), (''maxWidth'', JNumber 0)]"

definition example_unbounded_parsed :: android_options where
  "example_unbounded_parsed =
     \<lparr> fontSize = 16, fontFamily = None, fontWeight = Some ''normal'',
       fontStyle = Some ''normal'', letterSpacing = 0, lineHeight = 0, maxWidth = 0,
       maxHeight = 0, numberOfLines = 0, includeFontPad = True \<rparr>"

definition example_unbounded_ios_parsed :: ios_options where
  "example_unbounded_ios_parsed =
     \<lparr> ios_fontSize = 16, ios_fontFamily = None, ios_fontWeight = JString ''normal'',
       ios_fontStyle = JString ''normal'', ios_letterSpacing = 0, ios_lineHeight = 0,
       ios_maxWidth = 0, ios_maxHeight = 0, ios_maxLines = 0 \<rparr>"

text \<open>A text that wraps to four lines of 50 units, with a line height of 20 (and, on iOS, room for 1000 units of height).\<close>

definition example_text :: string where
  "example_text = ''Hello world, this is a text''"

definition example_lineheight_parsed :: android_options where
  "example_lineheight_parsed =
     \<lparr> fontSize = 14, fontFamily = None, fontWeight = Some ''normal'',
       fontStyle = Some ''normal'', letterSpacing = 0, lineHeight = 20, maxWidth = 50,
       maxHeight = 0, numberOfLines = 0, includeFontPad = True \<rparr>"

definition example_lineheight_ios_parsed :: ios_options where
  "example_lineheight_ios_parsed =
     \<lparr> ios_fontSize = 14, ios_fontFamily = None, ios_fontWeight = JString ''normal'',
       ios_fontStyle = JString ''normal'', ios_letterSpacing = 0, ios_lineHeight = 20,
       ios_maxWidth = 50, ios_maxHeight = 1000, ios_maxLines = 0 \<rparr>"

definition example_lineheight_request :: "string layout_request" where
  "example_lineheight_request =
     \<lparr> via_builder = True, layout_text = example_text,
       paint = \<lparr> textSize = 28, typeface = ''sans-serif'', paint_letterSpacing = 0 \<rparr>,
       width = 100, includePad = True, maxLines = Integer_MAX_VALUE, ellipsize = None,
       ellipsizedWidth = 100, spacingAdd = 27 / 4, spacingMult = 1 \<rparr>"

definition example_lineheight_layout :: static_layout where
  "example_lineheight_layout = \<lparr> lineWidths = [98, 98, 98, 84], getHeight = 160 \<rparr>"

definition example_lineheight_ios_request :: "(string \<times> rat) textkit_request" where
  "example_lineheight_ios_request =
     \<lparr> storage_string = example_text, attr_font = (''System'', 14),
       attr_paragraphStyle =
         \<lparr> lineBreakMode = NSLineBreakByWordWrapping, minimumLineHeight = 20,
           maximumLineHeight = 20, lineSpacing = 0, lineHeightMultiple = 0 \<rparr>,
       attr_kern = None, container_size = (50, 1000), lineFragmentPadding = 0,
       container_lineBreakMode = NSLineBreakByWordWrapping, maximumNumberOfLines = 0 \<rparr>"

definition example_lineheight_ios_layout :: textkit_layout where
  "example_lineheight_ios_layout =
     \<lparr> usedRect_size = (49, 80), lineFragments = [(49, 20), (49, 20), (49, 20), (42, 20)] \<rparr>"

text \<open>A line height of 40 and a maximal height of 100, on a display of density 2.625.\<close>

definition example_clamp_options :: js_object where
  "example_clamp_options =
     [(''maxWidth'', JNumber 50), (''maxHeight'', JNumber 100), (''lineHeight'', JNumber 40)]"

section \<open>The resolver chain of the specification\<close>










section \<open>Lookups that fail, platforms where they succeed\<close>



text \<open>
  An Android platform with the font asset \<^verbatim>\<open>fonts/Lato.ttf\<close>, on which every family name
  is a system family and a typeface shows the weight of its style; an iOS platform whose
  system font shows its weight; an iOS platform on which no descriptor gives a font; and
  an iOS platform whose families have a single face, so that no trait can be satisfied.
\<close>

definition style_suffix :: "int \<Rightarrow> string" where
  "style_suffix style =
     (if style = Typeface_BOLD \<or> style = Typeface_BOLD_ITALIC then '':bold'' else [])"

definition bundled_android_env :: "string android_env" where
  "bundled_android_env =
     (example_android_env 2 example_StaticLayout)
       \<lparr> createFromAsset :=
           (\<lambda>path. if path = ''fonts/Lato.ttf'' then Inr (Some ''Lato.ttf'')
                    else Inl (Exception (Some ''Font asset not found''))),
         create_styled := (\<lambda>face style. Inr (face @ style_suffix style)),
         create_family := (\<lambda>family style. Inr (Some (family @ style_suffix style))),
         create_default := (\<lambda>style. ''sans-serif'' @ style_suffix style) \<rparr>"

definition weighted_ios_env :: "(string, string \<times> rat) ios_env" where
  "weighted_ios_env =
     (example_ios_env example_TextKit)
       \<lparr> systemFontOfSize_weight :=
           (\<lambda>pointSize weight.
              Some (if UIFontWeightBold \<le> weight then ''System-Bold'' else ''System'',
                    pointSize)) \<rparr>"


definition single_face_ios_env :: "(string, string \<times> rat) ios_env" where
  "single_face_ios_env =
     (example_ios_env example_TextKit)
       \<lparr> fontDescriptorWithSymbolicTraits := (\<lambda>d traits. None) \<rparr>"

text \<open>Options that name a family, on Android and on iOS, to be given a weight.\<close>

definition example_family_parsed :: android_options where
  "example_family_parsed =
     \<lparr> fontSize = 14, fontFamily = Some ''monospace'', fontWeight = Some ''normal'',
       fontStyle = Some ''normal'', letterSpacing = 0, lineHeight = 0, maxWidth = 50,
       maxHeight = 100, numberOfLines = 0, includeFontPad = True \<rparr>"

definition example_family_ios_parsed :: ios_options where
  "example_family_ios_parsed =
     \<lparr> ios_fontSize = 14, ios_fontFamily = Some (JString ''Solo''),
       ios_fontWeight = JString ''normal'', ios_fontStyle = JString ''normal'',
       ios_letterSpacing = 0, ios_lineHeight = 0, ios_maxWidth = 50, ios_maxHeight = 100,
       ios_maxLines = 0 \<rparr>"

section \<open>Weight tiers\<close>

text \<open>
  Android's typeface styles carry two weights: 700 for \<^verbatim>\<open>BOLD\<close> and \<^verbatim>\<open>BOLD_ITALIC\<close>, 400 for
  \<^verbatim>\<open>NORMAL\<close> and \<^verbatim>\<open>ITALIC\<close>. The tier of a font weight is the weight of the style that
  \<^verbatim>\<open>performMeasure\<close> requests for it.
\<close>

definition typeface_weight :: "int \<Rightarrow> int" where
  "typeface_weight style =
     (if style = Typeface_BOLD \<or> style = Typeface_BOLD_ITALIC then 700 else 400)"

definition android_tiers :: "int list" where
  "android_tiers = [400, 700]"

definition android_tier :: "string \<Rightarrow> bool \<Rightarrow> int option" where
  "android_tier weight isItalic =
     (case isBold_of (Some weight) of
        Inl e \<Rightarrow> None
      | Inr isBold \<Rightarrow> Some (typeface_weight (typefaceStyle_of isBold isItalic)))"

text \<open>A tier is nearest to a weight when no tier of the platform is closer.\<close>

definition nearest_tier :: "int list \<Rightarrow> int \<Rightarrow> int \<Rightarrow> bool" where
  "nearest_tier tiers n t = (t \<in> set tiers \<and> list_all (\<lambda>u. \<bar>t - n\<bar> \<le> \<bar>u - n\<bar>) tiers)"

definition android_tier_is_nearest :: "bool \<Rightarrow> string \<times> int \<Rightarrow> bool" where
  "android_tier_is_nearest isItalic entry =
     (case entry of (weight, n) \<Rightarrow>
        (case android_tier weight isItalic of
           None \<Rightarrow> False
         | Some t \<Rightarrow> nearest_tier android_tiers n t))"

text \<open>The nine numeric weights, as strings and as numbers.\<close>

definition numeric_weights :: "(string \<times> int) list" where
  "numeric_weights =
     [(''100'', 100), (''200'', 200), (''300'', 300), (''400'', 400), (''500'', 500),
      (''600'', 600), (''700'', 700), (''800'', 800), (''900'', 900)]"

definition UIFontWeight_tiers :: "rat list" where
  "UIFontWeight_tiers =
     [UIFontWeightUltraLight, UIFontWeightThin, UIFontWeightLight, UIFontWeightRegular,
      UIFontWeightMedium, UIFontWeightSemibold, UIFontWeightBold, UIFontWeightHeavy,
      UIFontWeightBlack]"

text \<open>Platforms whose engine throws an exception that carries no message.\<close>

definition silent_failure :: exn where
  "silent_failure = Exception None"

definition silent_android_env :: "string android_env" where
  "silent_android_env = example_android_env 2 (\<lambda>request. Inl silent_failure)"

definition silent_ios_env :: "(string, string \<times> rat) ios_env" where
  "silent_ios_env = example_ios_env (\<lambda>request. Inl silent_failure)"

section \<open>The engines on an empty text\<close>

text \<open>
  What either layout engine does with an empty text is not in the files: the claims about
  empty text are claims about the module on top of an engine that lays an empty text out
  as a fixed number of lines, none of them wider than 0 (\<^verbatim>\<open>StaticLayout\<close>, one empty line),
  or as a used rectangle of width 0 with a fixed number of line fragments (TextKit, none).
\<close>

definition StaticLayout_lays_out_empty_text :: "'tf android_env \<Rightarrow> nat \<Rightarrow> bool" where
  "StaticLayout_lays_out_empty_text env c =
     (\<forall>request layout. layout_text request = [] \<longrightarrow> StaticLayout_build env request = Inr layout
        \<longrightarrow> list_all (\<lambda>w. w \<le> 0) (lineWidths layout) \<and> length (lineWidths layout) = c)"

definition TextKit_lays_out_empty_text :: "('d, 'f) ios_env \<Rightarrow> nat \<Rightarrow> bool" where
  "TextKit_lays_out_empty_text env c =
     (\<forall>request layout. storage_string request = [] \<longrightarrow> TextKit_layout env request = Inr layout
        \<longrightarrow> fst (usedRect_size layout) = 0 \<and> length (lineFragments layout) = c)"

section \<open>Shapes of the results\<close>

lemma extract_result_no_error: "map_of (extract_result env opts layout) ''error'' = None"
  by (simp add: extract_result_def Let_def)

lemma performMeasure_no_error:
  "performMeasure env text0 options0 = Inr r \<Longrightarrow> map_of r ''error'' = None"
  by (auto simp: performMeasure_def Let_def try_bind_def extract_result_no_error
      split: sum.splits)

lemma ios_result_no_error: "map_of (ios_result layout) ''error'' = None"
  by (simp add: ios_result_def Let_def)

lemma RNTMPerformMeasure_no_error:
  "RNTMPerformMeasure env text0 options = Inr r \<Longrightarrow> map_of r ''error'' = None"
  by (auto simp: RNTMPerformMeasure_def try_bind_def ios_result_no_error split: sum.splits)

text \<open>The fields of the results, and the weight test of step 3 on a weight that is there.\<close>

lemma count_fragments_length: "count_fragments fs n = n + int (length fs)"
  by (induction fs arbitrary: n) simp_all

lemma extract_result_lineCount:
  "map_of (extract_result env opts layout) ''lineCount''
     = Some (JNumber (of_nat (length (lineWidths layout))))"
  by (simp add: extract_result_def Let_def)

lemma ios_result_fields:
  "map_of (ios_result layout) ''width'' = Some (JNumber (of_int \<lceil>fst (usedRect_size layout)\<rceil>))"
  "map_of (ios_result layout) ''height'' = Some (JNumber (of_int \<lceil>snd (usedRect_size layout)\<rceil>))"
  "map_of (ios_result layout) ''lineCount'' = Some (JNumber (of_nat (length (lineFragments layout))))"
  by (simp_all add: ios_result_def Let_def count_fragments_length)

lemma widest_fold: "widest ws m = fold max ws m"
  by (induction ws arbitrary: m) (simp_all add: max_def)

lemma extract_result_width:
  "map_of (extract_result env opts layout) ''width''
     = Some (JNumber (fold max (lineWidths layout) 0 / density env))"
  by (simp add: extract_result_def Let_def widest_fold)

lemma isBold_of_Some:
  "isBold_of (Some w) = Inr (equalsIgnoreCase ''bold'' (Some w) \<or> numericWeightIsBold w)"
  by (simp add: isBold_of_def)

text \<open>An error of \<open>e\<close> pixels is an error of \<open>e / density\<close> units.\<close>

lemma scaled_error:
  fixes a b d e :: rat
  assumes "0 < d" and "\<bar>a - b * d\<bar> \<le> e"
  shows "\<bar>a / d - b\<bar> \<le> e / d"
proof -
  from assms(1) have "a / d - b = (a - b * d) / d"
    by (simp add: field_simps)
  then have "\<bar>a / d - b\<bar> = \<bar>a - b * d\<bar> / d"
    using assms(1) by simp
  with assms show ?thesis
    by (simp add: divide_right_mono)
qed

text \<open>A \<^verbatim>\<open>nil\<close> text and the empty text give the same measurement on iOS.\<close>

lemma RNTMPerformMeasure_nil_text:
  "RNTMPerformMeasure env None options = RNTMPerformMeasure env (Some []) options"
  by (simp add: RNTMPerformMeasure_def textkit_request_of_def)

lemma android_entry_points_agree:
  "resolved_value (android_measureText env text0 options0) =
   returned_value (android_measureTextSync env text0 options0)"
  by (cases "performMeasure env text0 options0")
     (simp_all add: android_measureText_def android_measureTextSync_def resolved_value_def
        returned_value_def performMeasure_no_error)

lemma ios_entry_points_agree:
  "resolved_value (ios_measureText env text0 options0) =
   returned_value (ios_measureTextSync env text0 options0)"
proof (cases text0)
  case None
  then show ?thesis
    by (cases "RNTMPerformMeasure env (Some []) (case options0 of None \<Rightarrow> [] | Some m \<Rightarrow> m)")
       (simp_all add: ios_measureText_def ios_measureTextSync_def resolved_value_def
          returned_value_def RNTMPerformMeasure_no_error RNTMPerformMeasure_nil_text)
next
  case (Some t)
  then show ?thesis
    by (cases "RNTMPerformMeasure env (Some t) (case options0 of None \<Rightarrow> [] | Some m \<Rightarrow> m)")
       (simp_all add: ios_measureText_def ios_measureTextSync_def resolved_value_def
          returned_value_def RNTMPerformMeasure_no_error)
qed

section \<open>C1: the two entry points agree\<close>

text \<open>
  C1. For every text and every options object, on Android and on iOS, called natively
  (with a possibly missing text or options map) or through the facade, the result with
  which the promise of \<^verbatim>\<open>measureText\<close> resolves is the result that \<^verbatim>\<open>measureTextSync\<close>
  returns: both are the value of the one shared measurement function, for the same
  platform state. The promise is rejected exactly when the blocking call returns an
  object with an \<^verbatim>\<open>error\<close> key.
\<close>

theorem sync_and_async_results_agree:
  "resolved_value (android_measureText aenv text0 options0) =
     returned_value (android_measureTextSync aenv text0 options0)
   \<and> resolved_value (ios_measureText ienv text0 options0) =
     returned_value (ios_measureTextSync ienv text0 options0)
   \<and> resolved_value (measureText (android_measureText aenv) txt options) =
     returned_value (measureTextSync (android_measureTextSync aenv) txt options)
   \<and> resolved_value (measureText (ios_measureText ienv) txt options) =
     returned_value (measureTextSync (ios_measureTextSync ienv) txt options)"
  by (simp add: measureText_def measureTextSync_def android_entry_points_agree
      ios_entry_points_agree)

text \<open>On the example platforms both sides are a result, the same one.\<close>

lemma entry_points_example:
  "resolved_value (measureText (android_measureText (example_android_env 2 example_StaticLayout))
       example_text example_clamp_options)
     = Some [(''width'', JNumber 49), (''height'', JNumber 100), (''lineCount'', JNumber 4)]
   \<and> returned_value (measureTextSync
         (android_measureTextSync (example_android_env 2 example_StaticLayout))
         example_text example_clamp_options)
     = Some [(''width'', JNumber 49), (''height'', JNumber 100), (''lineCount'', JNumber 4)]
   \<and> resolved_value (measureText (ios_measureText (example_ios_env example_TextKit))
       example_text example_clamp_options)
     = Some [(''width'', JNumber 49), (''height'', JNumber 80), (''lineCount'', JNumber 2)]
   \<and> returned_value (measureTextSync (ios_measureTextSync (example_ios_env example_TextKit))
         example_text example_clamp_options)
     = Some [(''width'', JNumber 49), (''height'', JNumber 80), (''lineCount'', JNumber 2)]"
  by code_simp

section \<open>The facade's sanitize\<close>

lemma absent_Cons:
  "absent ((k, v) # rest) key = ((k \<noteq> key \<or> v = JUndefined \<or> v = JNull) \<and> absent rest key)"
  by (simp add: absent_def)

lemma absent_lookup:
  "absent options key \<Longrightarrow>
     map_of options key = None \<or> map_of options key = Some JUndefined
       \<or> map_of options key = Some JNull"
  by (induction options) (auto simp: absent_Cons)

lemma foldl_sanitize_absent:
  "absent options key \<Longrightarrow> map_of out key = None
     \<Longrightarrow> map_of (foldl sanitize_step out options) key = None"
proof (induction options arbitrary: out)
  case Nil
  then show ?case by simp
next
  case (Cons entry rest)
  obtain k v where entry: "entry = (k, v)" by (cases entry)
  from Cons.prems(1) entry have rest: "absent rest key"
    and here: "k \<noteq> key \<or> v = JUndefined \<or> v = JNull"
    by (simp_all add: absent_Cons)
  from here Cons.prems(2) entry have "map_of (sanitize_step out entry) key = None"
    by (auto simp: sanitize_step_def AList.update_conv')
  with rest show ?case by (simp add: Cons.IH)
qed

lemma sanitize_absent: "absent options key \<Longrightarrow> map_of (sanitize options) key = None"
  by (simp add: sanitize_def foldl_sanitize_absent)

lemma foldl_sanitize_defined:
  "list_all (\<lambda>(k, v). defined_value v) out \<Longrightarrow> distinct (map fst out)
     \<Longrightarrow> list_all (\<lambda>(k, v). defined_value v) (foldl sanitize_step out options)
        \<and> distinct (map fst (foldl sanitize_step out options))"
proof (induction options arbitrary: out)
  case Nil
  then show ?case by simp
next
  case (Cons entry rest)
  obtain k v where entry: "entry = (k, v)" by (cases entry)
  have d: "distinct (map fst (sanitize_step out entry))"
    using Cons.prems(2) entry by (simp add: sanitize_step_def AList.distinct_update)
  have "set (AList.update k v out) \<subseteq> insert (k, v) (set out)"
    by (induction out) auto
  then have a: "list_all (\<lambda>(k, v). defined_value v) (sanitize_step out entry)"
    using Cons.prems(1) entry
    by (auto simp: sanitize_step_def list_all_iff defined_value_def)
  from a d show ?case by (simp add: Cons.IH)
qed

lemma sanitize_defined: "list_all (\<lambda>(k, v). defined_value v) (sanitize options)"
  by (simp add: sanitize_def foldl_sanitize_defined)

lemma sanitize_lookup_defined:
  "map_of (sanitize options) key = Some v \<Longrightarrow> defined_value v"
  using sanitize_defined [of options] by (auto simp: list_all_iff dest: map_of_SomeD)

text \<open>On an object with one entry for each key, \<^verbatim>\<open>sanitize\<close> is a filter: the entries it
  keeps are unchanged and in their order.\<close>

lemma update_fresh: "k \<notin> fst ` set al \<Longrightarrow> AList.update k v al = al @ [(k, v)]"
  by (induction al) auto

lemma foldl_sanitize_filter:
  "distinct (map fst (out @ options))
     \<Longrightarrow> foldl sanitize_step out options = out @ filter kept_entry options"
proof (induction options arbitrary: out)
  case Nil
  then show ?case by simp
next
  case (Cons entry rest)
  obtain k v where entry: "entry = (k, v)" by (cases entry)
  from Cons.prems entry have fresh: "k \<notin> fst ` set out" by auto
  show ?case
  proof (cases "kept_entry entry")
    case True
    then have step: "sanitize_step out entry = out @ [(k, v)]"
      using fresh entry
      by (simp add: sanitize_step_def defined_value_def kept_entry_def update_fresh)
    from Cons.prems entry have "distinct (map fst ((out @ [(k, v)]) @ rest))" by auto
    from Cons.IH [OF this] step True entry show ?thesis by simp
  next
    case False
    then have step: "sanitize_step out entry = out"
      using entry by (auto simp: sanitize_step_def defined_value_def kept_entry_def)
    from Cons.prems entry have "distinct (map fst (out @ rest))" by auto
    from Cons.IH [OF this] step False entry show ?thesis by simp
  qed
qed

lemma sanitize_filter:
  "distinct (map fst options) \<Longrightarrow> sanitize options = filter kept_entry options"
  using foldl_sanitize_filter [of "[]" options] by (simp add: sanitize_def)

section \<open>Reading the options\<close>

lemma getFloat_absent:
  "map_of m key = None \<or> map_of m key = Some JUndefined \<or> map_of m key = Some JNull
     \<Longrightarrow> getFloat m key def = Inr def"
  by (auto simp: getFloat_def hasKey_def isNull_def)

lemma getInt_absent:
  "map_of m key = None \<or> map_of m key = Some JUndefined \<or> map_of m key = Some JNull
     \<Longrightarrow> getInt m key def = Inr def"
  by (auto simp: getInt_def hasKey_def isNull_def)

lemma getBool_absent:
  "map_of m key = None \<or> map_of m key = Some JUndefined \<or> map_of m key = Some JNull
     \<Longrightarrow> getBool m key def = Inr def"
  by (auto simp: getBool_def hasKey_def isNull_def)

lemma getString_absent:
  "map_of m key = None \<or> map_of m key = Some JUndefined \<or> map_of m key = Some JNull
     \<Longrightarrow> getString m key def = Inr def"
  by (auto simp: getString_def hasKey_def isNull_def)

lemma parse_options_fields:
  "parse_options m = Inr opts \<Longrightarrow>
     getFloat m ''fontSize'' 14 = Inr (fontSize opts)
   \<and> getString m ''fontFamily'' None = Inr (fontFamily opts)
   \<and> getString m ''fontWeight'' (Some ''normal'') = Inr (fontWeight opts)
   \<and> getString m ''fontStyle'' (Some ''normal'') = Inr (fontStyle opts)
   \<and> getFloat m ''letterSpacing'' 0 = Inr (letterSpacing opts)
   \<and> getFloat m ''lineHeight'' 0 = Inr (lineHeight opts)
   \<and> getFloat m ''maxWidth'' 0 = Inr (maxWidth opts)
   \<and> getFloat m ''maxHeight'' 0 = Inr (maxHeight opts)
   \<and> getInt m ''numberOfLines'' 0 = Inr (numberOfLines opts)
   \<and> getBool m ''includeFontPadding'' True = Inr (includeFontPad opts)"
  unfolding parse_options_def try_bind_def
  by (auto split: sum.splits)

text \<open>With the nulls read as absent, the Android reader gives the defaults.\<close>

lemma parse_options_defaults:
  assumes "parse_options m = Inr opts"
  shows "(absent m ''fontSize'' \<longrightarrow> fontSize opts = 14)
       \<and> (absent m ''fontFamily'' \<longrightarrow> fontFamily opts = None)
       \<and> (absent m ''fontWeight'' \<longrightarrow> fontWeight opts = Some ''normal'')
       \<and> (absent m ''fontStyle'' \<longrightarrow> fontStyle opts = Some ''normal'')
       \<and> (absent m ''letterSpacing'' \<longrightarrow> letterSpacing opts = 0)
       \<and> (absent m ''lineHeight'' \<longrightarrow> lineHeight opts = 0)
       \<and> (absent m ''maxWidth'' \<longrightarrow> maxWidth opts = 0)
       \<and> (absent m ''maxHeight'' \<longrightarrow> maxHeight opts = 0)
       \<and> (absent m ''numberOfLines'' \<longrightarrow> numberOfLines opts = 0)
       \<and> (absent m ''includeFontPadding'' \<longrightarrow> includeFontPad opts = True)"
  using parse_options_fields [OF assms]
  by (auto dest!: absent_lookup
      simp: getFloat_absent getInt_absent getBool_absent getString_absent)

lemma absent_sanitize: "absent options key \<Longrightarrow> absent (sanitize options) key"
proof -
  assume "absent options key"
  then have "map_of (sanitize options) key = None" by (rule sanitize_absent)
  then have "key \<notin> fst ` set (sanitize options)" by (simp add: map_of_eq_None_iff)
  then show ?thesis by (force simp: absent_def list_all_iff)
qed

lemma ios_parse_options_fields:
  "ios_parse_options env m = Inr opts \<Longrightarrow>
     double_option env m ''fontSize'' 14 = Inr (ios_fontSize opts)
   \<and> ios_fontFamily opts = map_of m ''fontFamily''
   \<and> ios_fontWeight opts = object_option m ''fontWeight'' (JString ''normal'')
   \<and> ios_fontStyle opts = object_option m ''fontStyle'' (JString ''normal'')
   \<and> double_option env m ''letterSpacing'' 0 = Inr (ios_letterSpacing opts)
   \<and> double_option env m ''lineHeight'' 0 = Inr (ios_lineHeight opts)
   \<and> double_option env m ''maxWidth'' 0 = Inr (ios_maxWidth opts)
   \<and> double_option env m ''maxHeight'' 0 = Inr (ios_maxHeight opts)
   \<and> integer_option env m ''numberOfLines'' 0 = Inr (ios_maxLines opts)"
  unfolding ios_parse_options_def try_bind_def
  by (auto split: sum.splits)

text \<open>The iOS reader tests for a missing key only; behind the facade that is enough.\<close>

lemma ios_parse_options_defaults:
  assumes "ios_parse_options env (sanitize options) = Inr opts"
  shows "(absent options ''fontSize'' \<longrightarrow> ios_fontSize opts = 14)
       \<and> (absent options ''fontFamily'' \<longrightarrow> ios_fontFamily opts = None)
       \<and> (absent options ''fontWeight'' \<longrightarrow> ios_fontWeight opts = JString ''normal'')
       \<and> (absent options ''fontStyle'' \<longrightarrow> ios_fontStyle opts = JString ''normal'')
       \<and> (absent options ''letterSpacing'' \<longrightarrow> ios_letterSpacing opts = 0)
       \<and> (absent options ''lineHeight'' \<longrightarrow> ios_lineHeight opts = 0)
       \<and> (absent options ''maxWidth'' \<longrightarrow> ios_maxWidth opts = 0)
       \<and> (absent options ''maxHeight'' \<longrightarrow> ios_maxHeight opts = 0)
       \<and> (absent options ''numberOfLines'' \<longrightarrow> ios_maxLines opts = 0)"
  using ios_parse_options_fields [OF assms]
  by (auto dest!: sanitize_absent simp: double_option_def integer_option_def object_option_def)

text \<open>Behind the facade no value is null, so the iOS reader never throws.\<close>

lemma doubleValue_defined: "defined_value v \<Longrightarrow> \<exists>d. doubleValue env v = Inr d"
  by (cases v) (simp_all add: doubleValue_def defined_value_def)

lemma integerValue_defined: "defined_value v \<Longrightarrow> \<exists>d. integerValue env v = Inr d"
  by (cases v) (simp_all add: integerValue_def defined_value_def)

lemma double_option_sanitized: "\<exists>d. double_option env (sanitize options) key def = Inr d"
  by (cases "map_of (sanitize options) key")
     (auto simp: double_option_def dest: sanitize_lookup_defined intro: doubleValue_defined)

lemma integer_option_sanitized: "\<exists>d. integer_option env (sanitize options) key def = Inr d"
  by (cases "map_of (sanitize options) key")
     (auto simp: integer_option_def dest: sanitize_lookup_defined intro: integerValue_defined)

lemma ios_parse_options_sanitized: "\<exists>opts. ios_parse_options env (sanitize options) = Inr opts"
proof -
  obtain a where a: "double_option env (sanitize options) ''fontSize'' 14 = Inr a"
    using double_option_sanitized by blast
  obtain b where b: "double_option env (sanitize options) ''letterSpacing'' 0 = Inr b"
    using double_option_sanitized by blast
  obtain c where c: "double_option env (sanitize options) ''lineHeight'' 0 = Inr c"
    using double_option_sanitized by blast
  obtain d where d: "double_option env (sanitize options) ''maxWidth'' 0 = Inr d"
    using double_option_sanitized by blast
  obtain e where e: "double_option env (sanitize options) ''maxHeight'' 0 = Inr e"
    using double_option_sanitized by blast
  obtain f where f: "integer_option env (sanitize options) ''numberOfLines'' 0 = Inr f"
    using integer_option_sanitized by blast
  show ?thesis
    by (simp add: ios_parse_options_def try_bind_def a b c d e f)
qed

section \<open>C2: absent, undefined and null options take the defaults\<close>

text \<open>
  C2. The facade's \<^verbatim>\<open>sanitize\<close> keeps no entry whose value is \<^verbatim>\<open>undefined\<close> or \<^verbatim>\<open>null\<close>, so
  a key that is absent, undefined or null in the caller's options is missing from the map
  the native module receives. Whenever the options are read successfully, each such key
  has its default: font size 14, no font family, weight and style \<^verbatim>\<open>normal\<close>, letter
  spacing, line height, maximal width, maximal height and number of lines 0, and (Android
  only: iOS does not read it) font padding included. The Android reader also takes a null
  handed to it directly as absent. On iOS the sanitized options are always read
  successfully.
\<close>

theorem absent_options_take_defaults:
  "list_all (\<lambda>(key, value). value \<noteq> JUndefined \<and> value \<noteq> JNull) (sanitize options)
   \<and> (absent options key \<longrightarrow> \<not> hasKey (sanitize options) key)
   \<and> (parse_options (sanitize options) = Inr opts \<longrightarrow>
        (absent options ''fontSize'' \<longrightarrow> fontSize opts = 14)
      \<and> (absent options ''fontFamily'' \<longrightarrow> fontFamily opts = None)
      \<and> (absent options ''fontWeight'' \<longrightarrow> fontWeight opts = Some ''normal'')
      \<and> (absent options ''fontStyle'' \<longrightarrow> fontStyle opts = Some ''normal'')
      \<and> (absent options ''letterSpacing'' \<longrightarrow> letterSpacing opts = 0)
      \<and> (absent options ''lineHeight'' \<longrightarrow> lineHeight opts = 0)
      \<and> (absent options ''maxWidth'' \<longrightarrow> maxWidth opts = 0)
      \<and> (absent options ''maxHeight'' \<longrightarrow> maxHeight opts = 0)
      \<and> (absent options ''numberOfLines'' \<longrightarrow> numberOfLines opts = 0)
      \<and> (absent options ''includeFontPadding'' \<longrightarrow> includeFontPad opts = True))
   \<and> (parse_options options = Inr nopts \<longrightarrow>
        (absent options ''fontSize'' \<longrightarrow> fontSize nopts = 14)
      \<and> (absent options ''fontFamily'' \<longrightarrow> fontFamily nopts = None)
      \<and> (absent options ''fontWeight'' \<longrightarrow> fontWeight nopts = Some ''normal'')
      \<and> (absent options ''fontStyle'' \<longrightarrow> fontStyle nopts = Some ''normal'')
      \<and> (absent options ''letterSpacing'' \<longrightarrow> letterSpacing nopts = 0)
      \<and> (absent options ''lineHeight'' \<longrightarrow> lineHeight nopts = 0)
      \<and> (absent options ''maxWidth'' \<longrightarrow> maxWidth nopts = 0)
      \<and> (absent options ''maxHeight'' \<longrightarrow> maxHeight nopts = 0)
      \<and> (absent options ''numberOfLines'' \<longrightarrow> numberOfLines nopts = 0)
      \<and> (absent options ''includeFontPadding'' \<longrightarrow> includeFontPad nopts = True))
   \<and> (\<exists>found. ios_parse_options ienv (sanitize options) = Inr found)
   \<and> (ios_parse_options ienv (sanitize options) = Inr iopts \<longrightarrow>
        (absent options ''fontSize'' \<longrightarrow> ios_fontSize iopts = 14)
      \<and> (absent options ''fontFamily'' \<longrightarrow> ios_fontFamily iopts = None)
      \<and> (absent options ''fontWeight'' \<longrightarrow> ios_fontWeight iopts = JString ''normal'')
      \<and> (absent options ''fontStyle'' \<longrightarrow> ios_fontStyle iopts = JString ''normal'')
      \<and> (absent options ''letterSpacing'' \<longrightarrow> ios_letterSpacing iopts = 0)
      \<and> (absent options ''lineHeight'' \<longrightarrow> ios_lineHeight iopts = 0)
      \<and> (absent options ''maxWidth'' \<longrightarrow> ios_maxWidth iopts = 0)
      \<and> (absent options ''maxHeight'' \<longrightarrow> ios_maxHeight iopts = 0)
      \<and> (absent options ''numberOfLines'' \<longrightarrow> ios_maxLines iopts = 0))"
proof -
  have stripped:
    "list_all (\<lambda>(key, value). value \<noteq> JUndefined \<and> value \<noteq> JNull) (sanitize options)"
    using sanitize_defined [of options] by (simp add: defined_value_def)
  have gone: "absent options key \<longrightarrow> \<not> hasKey (sanitize options) key"
    by (simp add: hasKey_def sanitize_absent)
  have facade: "parse_options (sanitize options) = Inr opts \<longrightarrow>
        (absent options ''fontSize'' \<longrightarrow> fontSize opts = 14)
      \<and> (absent options ''fontFamily'' \<longrightarrow> fontFamily opts = None)
      \<and> (absent options ''fontWeight'' \<longrightarrow> fontWeight opts = Some ''normal'')
      \<and> (absent options ''fontStyle'' \<longrightarrow> fontStyle opts = Some ''normal'')
      \<and> (absent options ''letterSpacing'' \<longrightarrow> letterSpacing opts = 0)
      \<and> (absent options ''lineHeight'' \<longrightarrow> lineHeight opts = 0)
      \<and> (absent options ''maxWidth'' \<longrightarrow> maxWidth opts = 0)
      \<and> (absent options ''maxHeight'' \<longrightarrow> maxHeight opts = 0)
      \<and> (absent options ''numberOfLines'' \<longrightarrow> numberOfLines opts = 0)
      \<and> (absent options ''includeFontPadding'' \<longrightarrow> includeFontPad opts = True)"
    using parse_options_defaults [of "sanitize options" opts] absent_sanitize [of options]
    by blast
  have native: "parse_options options = Inr nopts \<longrightarrow>
        (absent options ''fontSize'' \<longrightarrow> fontSize nopts = 14)
      \<and> (absent options ''fontFamily'' \<longrightarrow> fontFamily nopts = None)
      \<and> (absent options ''fontWeight'' \<longrightarrow> fontWeight nopts = Some ''normal'')
      \<and> (absent options ''fontStyle'' \<longrightarrow> fontStyle nopts = Some ''normal'')
      \<and> (absent options ''letterSpacing'' \<longrightarrow> letterSpacing nopts = 0)
      \<and> (absent options ''lineHeight'' \<longrightarrow> lineHeight nopts = 0)
      \<and> (absent options ''maxWidth'' \<longrightarrow> maxWidth nopts = 0)
      \<and> (absent options ''maxHeight'' \<longrightarrow> maxHeight nopts = 0)
      \<and> (absent options ''numberOfLines'' \<longrightarrow> numberOfLines nopts = 0)
      \<and> (absent options ''includeFontPadding'' \<longrightarrow> includeFontPad nopts = True)"
    using parse_options_defaults [of options nopts] by blast
  have ios: "ios_parse_options ienv (sanitize options) = Inr iopts \<longrightarrow>
        (absent options ''fontSize'' \<longrightarrow> ios_fontSize iopts = 14)
      \<and> (absent options ''fontFamily'' \<longrightarrow> ios_fontFamily iopts = None)
      \<and> (absent options ''fontWeight'' \<longrightarrow> ios_fontWeight iopts = JString ''normal'')
      \<and> (absent options ''fontStyle'' \<longrightarrow> ios_fontStyle iopts = JString ''normal'')
      \<and> (absent options ''letterSpacing'' \<longrightarrow> ios_letterSpacing iopts = 0)
      \<and> (absent options ''lineHeight'' \<longrightarrow> ios_lineHeight iopts = 0)
      \<and> (absent options ''maxWidth'' \<longrightarrow> ios_maxWidth iopts = 0)
      \<and> (absent options ''maxHeight'' \<longrightarrow> ios_maxHeight iopts = 0)
      \<and> (absent options ''numberOfLines'' \<longrightarrow> ios_maxLines iopts = 0)"
    using ios_parse_options_defaults [of ienv options iopts] by blast
  from stripped gone facade native ios ios_parse_options_sanitized [of ienv options]
  show ?thesis by blast
qed

theorem absent_options_take_defaults_witness:
  "absent example_options ''fontSize'' \<and> absent example_options ''maxWidth''
   \<and> absent example_options ''includeFontPadding''
   \<and> \<not> hasKey (sanitize example_options) ''fontSize''
   \<and> parse_options (sanitize example_options) = Inr example_parsed
   \<and> fontSize example_parsed = 14 \<and> maxWidth example_parsed = 0
   \<and> includeFontPad example_parsed = True
   \<and> ios_parse_options (example_ios_env example_TextKit) (sanitize example_options)
        = Inr example_ios_parsed
   \<and> ios_fontSize example_ios_parsed = 14 \<and> ios_maxWidth example_ios_parsed = 0"
proof -
  have a1: "absent example_options ''fontSize''" by code_simp
  have a2: "absent example_options ''maxWidth''" by code_simp
  have a3: "absent example_options ''includeFontPadding''" by code_simp
  have p: "parse_options (sanitize example_options) = Inr example_parsed" by code_simp
  have i: "ios_parse_options (example_ios_env example_TextKit) (sanitize example_options)
             = Inr example_ios_parsed" by code_simp
  from absent_options_take_defaults
         [of example_options "''fontSize''" example_parsed example_parsed
            "example_ios_env example_TextKit" example_ios_parsed]
       a1 a2 a3 p i
  show ?thesis by simp
qed

section \<open>What the engines are asked\<close>

lemma layout_request_of_fields:
  assumes "layout_request_of env text0 opts = Inr request"
  shows "width request = px_limit (maxWidth opts) (density env)"
    and "ellipsizedWidth request = px_limit (maxWidth opts) (density env)"
    and "spacingMult request = 1"
    and "spacingAdd request =
           (if 0 < lineHeight opts * density env
            then lineHeight opts * density env - naturalLineHeight env (paint request) else 0)"
    and "layout_text request = text0"
  using assms
  by (auto simp: layout_request_of_def try_bind_def buildStaticLayout_def Let_def
      split: sum.splits if_splits)

lemma textkit_request_of_fields:
  assumes "textkit_request_of env text0 opts = Inr request"
  shows "container_size request =
           (unbounded_if_not_positive (ios_maxWidth opts),
            unbounded_if_not_positive (ios_maxHeight opts))"
    and "attr_paragraphStyle request = build_paragraph_style (ios_lineHeight opts)"
    and "storage_string request = (case text0 of None \<Rightarrow> [] | Some t \<Rightarrow> t)"
  using assms
  by (auto simp: textkit_request_of_def try_bind_def Let_def split: sum.splits option.splits)

lemma CGFLOAT_MAX_positive: "0 < CGFLOAT_MAX"
  by (simp add: CGFLOAT_MAX_def)

lemma getFloat_zero: "map_of m key = Some (JNumber 0) \<Longrightarrow> getFloat m key def = Inr 0"
  by (simp add: getFloat_def hasKey_def isNull_def getDouble_def)

lemma getFloat_zero_or_absent:
  "map_of m key = None \<or> map_of m key = Some JNull \<or> map_of m key = Some (JNumber 0)
     \<Longrightarrow> getFloat m key 0 = Inr 0"
  by (auto simp: getFloat_zero getFloat_absent)

lemma double_option_zero_or_absent:
  "map_of m key = None \<or> map_of m key = Some (JNumber 0)
     \<Longrightarrow> double_option env m key 0 = Inr 0"
  by (auto simp: double_option_def doubleValue_def)

lemma extract_result_unclamped:
  "px_limit (maxHeight opts) (density env) = Integer_MAX_VALUE
     \<Longrightarrow> map_of (extract_result env opts layout) ''height''
           = Some (JNumber (of_int (getHeight layout) / density env))"
  by (simp add: extract_result_def Let_def)

section \<open>C3: an unbounded dimension is the engine's maximum\<close>

text \<open>
  C3. When the maximal width is 0 or absent, the width handed to Android's
  \<^verbatim>\<open>StaticLayout\<close> is \<^verbatim>\<open>Integer.MAX_VALUE\<close> and the width of the iOS text container is
  \<^verbatim>\<open>CGFLOAT_MAX\<close>; when the maximal height is 0 or absent, Android's height limit is
  \<^verbatim>\<open>Integer.MAX_VALUE\<close>, so that the height is reported unclamped, and the height of the iOS
  text container is \<^verbatim>\<open>CGFLOAT_MAX\<close>. None of these is 0. (Android reads a null as absent;
  on iOS the facade has removed it.)
\<close>

theorem unbounded_dimension_is_engine_maximum:
  "(parse_options m = Inr opts \<longrightarrow> layout_request_of aenv text0 opts = Inr request \<longrightarrow>
      (map_of m ''maxWidth'' = None \<or> map_of m ''maxWidth'' = Some JNull
         \<or> map_of m ''maxWidth'' = Some (JNumber 0)) \<longrightarrow>
      width request = Integer_MAX_VALUE \<and> ellipsizedWidth request = Integer_MAX_VALUE
        \<and> width request \<noteq> 0)
   \<and> (parse_options m = Inr opts \<longrightarrow>
      (map_of m ''maxHeight'' = None \<or> map_of m ''maxHeight'' = Some JNull
         \<or> map_of m ''maxHeight'' = Some (JNumber 0)) \<longrightarrow>
      px_limit (maxHeight opts) (density aenv) = Integer_MAX_VALUE
        \<and> px_limit (maxHeight opts) (density aenv) \<noteq> 0
        \<and> map_of (extract_result aenv opts layout) ''height''
            = Some (JNumber (of_int (getHeight layout) / density aenv)))
   \<and> (ios_parse_options ienv im = Inr iopts \<longrightarrow>
       textkit_request_of ienv itext iopts = Inr irequest \<longrightarrow>
      (map_of im ''maxWidth'' = None \<or> map_of im ''maxWidth'' = Some (JNumber 0)) \<longrightarrow>
      fst (container_size irequest) = CGFLOAT_MAX \<and> fst (container_size irequest) \<noteq> 0)
   \<and> (ios_parse_options ienv im = Inr iopts \<longrightarrow>
       textkit_request_of ienv itext iopts = Inr irequest \<longrightarrow>
      (map_of im ''maxHeight'' = None \<or> map_of im ''maxHeight'' = Some (JNumber 0)) \<longrightarrow>
      snd (container_size irequest) = CGFLOAT_MAX \<and> snd (container_size irequest) \<noteq> 0)"
proof (intro conjI impI)
  assume p: "parse_options m = Inr opts"
    and r: "layout_request_of aenv text0 opts = Inr request"
    and z: "map_of m ''maxWidth'' = None \<or> map_of m ''maxWidth'' = Some JNull
              \<or> map_of m ''maxWidth'' = Some (JNumber 0)"
  from parse_options_fields [OF p] getFloat_zero_or_absent [OF z]
  have "maxWidth opts = 0" by simp
  with layout_request_of_fields(1,2) [OF r]
  show "width request = Integer_MAX_VALUE" and "ellipsizedWidth request = Integer_MAX_VALUE"
    and "width request \<noteq> 0"
    by (simp_all add: px_limit_def Integer_MAX_VALUE_def)
next
  assume p: "parse_options m = Inr opts"
    and z: "map_of m ''maxHeight'' = None \<or> map_of m ''maxHeight'' = Some JNull
              \<or> map_of m ''maxHeight'' = Some (JNumber 0)"
  from parse_options_fields [OF p] getFloat_zero_or_absent [OF z]
  have "maxHeight opts = 0" by simp
  then show limit: "px_limit (maxHeight opts) (density aenv) = Integer_MAX_VALUE"
    by (simp add: px_limit_def)
  then show "px_limit (maxHeight opts) (density aenv) \<noteq> 0"
    by (simp add: Integer_MAX_VALUE_def)
  from limit show "map_of (extract_result aenv opts layout) ''height''
            = Some (JNumber (of_int (getHeight layout) / density aenv))"
    by (rule extract_result_unclamped)
next
  assume p: "ios_parse_options ienv im = Inr iopts"
    and r: "textkit_request_of ienv itext iopts = Inr irequest"
    and z: "map_of im ''maxWidth'' = None \<or> map_of im ''maxWidth'' = Some (JNumber 0)"
  from ios_parse_options_fields [OF p] double_option_zero_or_absent [OF z, of ienv]
  have "ios_maxWidth iopts = 0" by simp
  with textkit_request_of_fields(1) [OF r] CGFLOAT_MAX_positive
  show "fst (container_size irequest) = CGFLOAT_MAX" and "fst (container_size irequest) \<noteq> 0"
    by (simp_all add: unbounded_if_not_positive_def)
next
  assume p: "ios_parse_options ienv im = Inr iopts"
    and r: "textkit_request_of ienv itext iopts = Inr irequest"
    and z: "map_of im ''maxHeight'' = None \<or> map_of im ''maxHeight'' = Some (JNumber 0)"
  from ios_parse_options_fields [OF p] double_option_zero_or_absent [OF z, of ienv]
  have "ios_maxHeight iopts = 0" by simp
  with textkit_request_of_fields(1) [OF r] CGFLOAT_MAX_positive
  show "snd (container_size irequest) = CGFLOAT_MAX" and "snd (container_size irequest) \<noteq> 0"
    by (simp_all add: unbounded_if_not_positive_def)
qed

theorem unbounded_dimension_is_engine_maximum_witness:
  "parse_options example_unbounded = Inr example_unbounded_parsed
   \<and> map_of example_unbounded ''maxWidth'' = Some (JNumber 0)
   \<and> map_of example_unbounded ''maxHeight'' = None
   \<and> width (projr (layout_request_of (example_android_env 2 example_StaticLayout)
               ''Hello'' example_unbounded_parsed)) = Integer_MAX_VALUE
   \<and> px_limit (maxHeight example_unbounded_parsed) 2 = Integer_MAX_VALUE
   \<and> ios_parse_options (example_ios_env example_TextKit) example_unbounded
        = Inr example_unbounded_ios_parsed
   \<and> container_size (projr (textkit_request_of (example_ios_env example_TextKit)
               (Some ''Hello'') example_unbounded_ios_parsed)) = (CGFLOAT_MAX, CGFLOAT_MAX)"
proof -
  let ?aenv = "example_android_env 2 example_StaticLayout"
  let ?ienv = "example_ios_env example_TextKit"
  let ?request = "projr (layout_request_of ?aenv ''Hello'' example_unbounded_parsed)"
  let ?irequest = "projr (textkit_request_of ?ienv (Some ''Hello'') example_unbounded_ios_parsed)"
  have p: "parse_options example_unbounded = Inr example_unbounded_parsed" by code_simp
  have w: "map_of example_unbounded ''maxWidth'' = Some (JNumber 0)"
    by (simp add: example_unbounded_def)
  have h: "map_of example_unbounded ''maxHeight'' = None"
    by (simp add: example_unbounded_def)
  have "isBold_of (fontWeight example_unbounded_parsed) = Inr False" by code_simp
  then have r: "layout_request_of ?aenv ''Hello'' example_unbounded_parsed = Inr ?request"
    by (simp add: layout_request_of_def try_bind_def Let_def)
  have ip: "ios_parse_options ?ienv example_unbounded = Inr example_unbounded_ios_parsed"
    by code_simp
  have "isEqualToString (ios_fontStyle example_unbounded_ios_parsed) ''italic'' = Inr False"
    and "nonempty_family (ios_fontFamily example_unbounded_ios_parsed) = Inr None"
    by code_simp+
  then have ir: "textkit_request_of ?ienv (Some ''Hello'') example_unbounded_ios_parsed
                   = Inr ?irequest"
    by (simp add: textkit_request_of_def try_bind_def Let_def)
  have d: "density ?aenv = 2" by (simp add: example_android_env_def)
  from unbounded_dimension_is_engine_maximum
         [of example_unbounded example_unbounded_parsed ?aenv "''Hello''" ?request undefined
            ?ienv example_unbounded example_unbounded_ios_parsed "Some ''Hello''" ?irequest]
       p w h r ip ir d
  show ?thesis by (simp add: prod_eq_iff)
qed

section \<open>C4: an explicit line height\<close>

lemma build_paragraph_style_exact:
  "0 < L \<Longrightarrow> build_paragraph_style L =
     \<lparr> lineBreakMode = NSLineBreakByWordWrapping, minimumLineHeight = L,
       maximumLineHeight = L, lineSpacing = 0, lineHeightMultiple = 0 \<rparr>"
  by (simp add: build_paragraph_style_def NSMutableParagraphStyle_init_def Let_def)

text \<open>
  C4, as the claim states it, fails on iOS. For a line height of 20 and a font whose
  natural line height is 16 5/8, the paragraph style handed to TextKit has line spacing 0,
  not 20 - 16 5/8, and no multiple of 1: the file sets the minimal and the maximal line
  height to 20 instead.
\<close>

theorem ios_line_height_adds_no_spacing:
  "textkit_request_of (example_ios_env example_TextKit) (Some example_text)
       example_lineheight_ios_parsed = Inr example_lineheight_ios_request
   \<and> lineSpacing (attr_paragraphStyle example_lineheight_ios_request)
       \<noteq> ios_lineHeight example_lineheight_ios_parsed
           - (ascender (example_ios_env example_TextKit) (attr_font example_lineheight_ios_request)
              - descender (example_ios_env example_TextKit)
                  (attr_font example_lineheight_ios_request))
   \<and> lineHeightMultiple (attr_paragraphStyle example_lineheight_ios_request) \<noteq> 1"
  by code_simp

text \<open>
  C4, amended. With a line height \<open>L > 0\<close> (and a positive density): Android's layout gets
  the extra spacing \<open>L * density - (- ascent + descent)\<close>, in pixels, and the multiplier 1,
  on both API paths; iOS gets no spacing: the minimal and the maximal line height of the
  paragraph style are both \<open>L\<close>, its line spacing and its line height multiple stay 0.
  Neither uses a multiplier. When the engine then emits \<open>N\<close> lines of the configured
  height, the reported line count is \<open>N\<close> and the reported height is \<open>N * L\<close>: on Android
  without a maximal height and as exactly as the engine's pixel height is (an error of
  \<open>e\<close> pixels becomes \<open>e / density\<close>), on iOS rounded up to a whole unit.
\<close>

theorem line_height_configuration:
  "(layout_request_of aenv text0 opts = Inr request \<longrightarrow> 0 < density aenv \<longrightarrow>
      0 < lineHeight opts \<longrightarrow>
        spacingAdd request
          = lineHeight opts * density aenv
              - (- ascent aenv (paint request) + descent aenv (paint request))
        \<and> spacingMult request = 1)
   \<and> (layout_request_of aenv text0 opts = Inr request \<longrightarrow> 0 < density aenv \<longrightarrow>
      0 < lineHeight opts \<longrightarrow> maxHeight opts \<le> 0 \<longrightarrow>
      \<bar>of_int (getHeight layout)
         - of_nat (length (lineWidths layout))
             * ((- ascent aenv (paint request) + descent aenv (paint request))
                  * spacingMult request + spacingAdd request)\<bar> \<le> e \<longrightarrow>
        map_of (extract_result aenv opts layout) ''lineCount''
          = Some (JNumber (of_nat (length (lineWidths layout))))
        \<and> map_of (extract_result aenv opts layout) ''height''
          = Some (JNumber (of_int (getHeight layout) / density aenv))
        \<and> \<bar>of_int (getHeight layout) / density aenv
             - of_nat (length (lineWidths layout)) * lineHeight opts\<bar> \<le> e / density aenv)
   \<and> (textkit_request_of ienv itext iopts = Inr irequest \<longrightarrow> 0 < ios_lineHeight iopts \<longrightarrow>
        minimumLineHeight (attr_paragraphStyle irequest) = ios_lineHeight iopts
        \<and> maximumLineHeight (attr_paragraphStyle irequest) = ios_lineHeight iopts
        \<and> lineSpacing (attr_paragraphStyle irequest) = 0
        \<and> lineHeightMultiple (attr_paragraphStyle irequest) = 0)
   \<and> (snd (usedRect_size ilayout) = of_nat (length (lineFragments ilayout)) * L \<longrightarrow>
        map_of (ios_result ilayout) ''lineCount''
          = Some (JNumber (of_nat (length (lineFragments ilayout))))
        \<and> map_of (ios_result ilayout) ''height''
          = Some (JNumber (of_int \<lceil>of_nat (length (lineFragments ilayout)) * L\<rceil>)))"
proof (intro conjI impI)
  assume r: "layout_request_of aenv text0 opts = Inr request"
    and d: "0 < density aenv" and l: "0 < lineHeight opts"
  from d l have "0 < lineHeight opts * density aenv" by simp
  with layout_request_of_fields(4) [OF r]
  show "spacingAdd request
          = lineHeight opts * density aenv
              - (- ascent aenv (paint request) + descent aenv (paint request))"
    by (simp add: naturalLineHeight_def)
  from layout_request_of_fields(3) [OF r] show "spacingMult request = 1" .
next
  assume r: "layout_request_of aenv text0 opts = Inr request"
    and d: "0 < density aenv" and l: "0 < lineHeight opts" and h: "maxHeight opts \<le> 0"
    and c: "\<bar>of_int (getHeight layout)
         - of_nat (length (lineWidths layout))
             * ((- ascent aenv (paint request) + descent aenv (paint request))
                  * spacingMult request + spacingAdd request)\<bar> \<le> e"
  show "map_of (extract_result aenv opts layout) ''lineCount''
          = Some (JNumber (of_nat (length (lineWidths layout))))"
    by (rule extract_result_lineCount)
  from h have "px_limit (maxHeight opts) (density aenv) = Integer_MAX_VALUE"
    by (simp add: px_limit_def)
  then show "map_of (extract_result aenv opts layout) ''height''
          = Some (JNumber (of_int (getHeight layout) / density aenv))"
    by (rule extract_result_unclamped)
  from d l have "0 < lineHeight opts * density aenv" by simp
  with layout_request_of_fields(3,4) [OF r]
  have "(- ascent aenv (paint request) + descent aenv (paint request))
          * spacingMult request + spacingAdd request = lineHeight opts * density aenv"
    by (simp add: naturalLineHeight_def)
  with c have "\<bar>of_int (getHeight layout)
         - (of_nat (length (lineWidths layout)) * lineHeight opts) * density aenv\<bar> \<le> e"
    by (simp add: mult.assoc)
  from scaled_error [OF d this]
  show "\<bar>of_int (getHeight layout) / density aenv
             - of_nat (length (lineWidths layout)) * lineHeight opts\<bar> \<le> e / density aenv" .
next
  assume r: "textkit_request_of ienv itext iopts = Inr irequest"
    and l: "0 < ios_lineHeight iopts"
  from textkit_request_of_fields(2) [OF r] build_paragraph_style_exact [OF l]
  show "minimumLineHeight (attr_paragraphStyle irequest) = ios_lineHeight iopts"
    and "maximumLineHeight (attr_paragraphStyle irequest) = ios_lineHeight iopts"
    and "lineSpacing (attr_paragraphStyle irequest) = 0"
    and "lineHeightMultiple (attr_paragraphStyle irequest) = 0"
    by simp_all
next
  assume u: "snd (usedRect_size ilayout) = of_nat (length (lineFragments ilayout)) * L"
  show "map_of (ios_result ilayout) ''lineCount''
          = Some (JNumber (of_nat (length (lineFragments ilayout))))"
    by (rule ios_result_fields)
  from u show "map_of (ios_result ilayout) ''height''
          = Some (JNumber (of_int \<lceil>of_nat (length (lineFragments ilayout)) * L\<rceil>))"
    by (simp add: ios_result_fields)
qed

theorem line_height_configuration_witness:
  "layout_request_of (example_android_env 2 example_StaticLayout) example_text
       example_lineheight_parsed = Inr example_lineheight_request
   \<and> example_StaticLayout example_lineheight_request = Inr example_lineheight_layout
   \<and> spacingAdd example_lineheight_request = 27 / 4
   \<and> spacingMult example_lineheight_request = 1
   \<and> map_of (extract_result (example_android_env 2 example_StaticLayout)
        example_lineheight_parsed example_lineheight_layout) ''height''
        = Some (JNumber (4 * 20))
   \<and> textkit_request_of (example_ios_env example_TextKit) (Some example_text)
        example_lineheight_ios_parsed = Inr example_lineheight_ios_request
   \<and> example_TextKit example_lineheight_ios_request = Inr example_lineheight_ios_layout
   \<and> minimumLineHeight (attr_paragraphStyle example_lineheight_ios_request) = 20
   \<and> map_of (ios_result example_lineheight_ios_layout) ''height'' = Some (JNumber (4 * 20))"
proof -
  let ?aenv = "example_android_env 2 example_StaticLayout"
  let ?ienv = "example_ios_env example_TextKit"
  have r: "layout_request_of ?aenv example_text example_lineheight_parsed
             = Inr example_lineheight_request" by code_simp
  have b: "example_StaticLayout example_lineheight_request = Inr example_lineheight_layout"
    by code_simp
  have d: "0 < density ?aenv" by code_simp
  have l: "0 < lineHeight example_lineheight_parsed" by code_simp
  have h: "maxHeight example_lineheight_parsed \<le> 0" by code_simp
  have c: "\<bar>of_int (getHeight example_lineheight_layout)
         - of_nat (length (lineWidths example_lineheight_layout))
             * ((- ascent ?aenv (paint example_lineheight_request)
                 + descent ?aenv (paint example_lineheight_request))
                  * spacingMult example_lineheight_request
                + spacingAdd example_lineheight_request)\<bar> \<le> (0::rat)" by code_simp
  have ir: "textkit_request_of ?ienv (Some example_text) example_lineheight_ios_parsed
              = Inr example_lineheight_ios_request" by code_simp
  have ib: "example_TextKit example_lineheight_ios_request = Inr example_lineheight_ios_layout"
    by code_simp
  have il: "0 < ios_lineHeight example_lineheight_ios_parsed" by code_simp
  have iu: "snd (usedRect_size example_lineheight_ios_layout)
              = of_nat (length (lineFragments example_lineheight_ios_layout)) * 20" by code_simp
  have n: "length (lineWidths example_lineheight_layout) = 4"
    and hpx: "getHeight example_lineheight_layout = 160"
    and dens: "density ?aenv = 2"
    and lh: "lineHeight example_lineheight_parsed = 20"
    and ilh: "ios_lineHeight example_lineheight_ios_parsed = 20"
    and m: "length (lineFragments example_lineheight_ios_layout) = 4"
    by (simp_all add: example_lineheight_layout_def example_android_env_def
        example_lineheight_parsed_def example_lineheight_ios_parsed_def
        example_lineheight_ios_layout_def)
  note T = line_height_configuration
         [of ?aenv example_text example_lineheight_parsed example_lineheight_request
            example_lineheight_layout 0 ?ienv "Some example_text"
            example_lineheight_ios_parsed example_lineheight_ios_request
            example_lineheight_ios_layout 20]
  from T r d l have A: "spacingAdd example_lineheight_request
          = lineHeight example_lineheight_parsed * density ?aenv
              - (- ascent ?aenv (paint example_lineheight_request)
                 + descent ?aenv (paint example_lineheight_request))
        \<and> spacingMult example_lineheight_request = 1" by blast
  from T r d l h c have B: "map_of (extract_result ?aenv example_lineheight_parsed
          example_lineheight_layout) ''height''
          = Some (JNumber (of_int (getHeight example_lineheight_layout) / density ?aenv))"
    by blast
  from T ir il have C:
    "minimumLineHeight (attr_paragraphStyle example_lineheight_ios_request)
       = ios_lineHeight example_lineheight_ios_parsed" by blast
  from T iu have D: "map_of (ios_result example_lineheight_ios_layout) ''height''
          = Some (JNumber (of_int \<lceil>of_nat (length (lineFragments
               example_lineheight_ios_layout)) * (20::rat)\<rceil>))" by blast
  have v: "lineHeight example_lineheight_parsed * density ?aenv
              - (- ascent ?aenv (paint example_lineheight_request)
                 + descent ?aenv (paint example_lineheight_request)) = 27 / 4" by code_simp
  from A v have A': "spacingAdd example_lineheight_request = 27 / 4
        \<and> spacingMult example_lineheight_request = 1" by simp
  from B have B': "map_of (extract_result ?aenv example_lineheight_parsed
          example_lineheight_layout) ''height'' = Some (JNumber (4 * 20))"
    by (simp add: hpx dens)
  from C have C': "minimumLineHeight (attr_paragraphStyle example_lineheight_ios_request) = 20"
    by (simp add: ilh)
  from D have D': "map_of (ios_result example_lineheight_ios_layout) ''height''
          = Some (JNumber (4 * 20))"
    by (simp add: m)
  from r b ir ib A' B' C' D' show ?thesis by blast
qed

section \<open>C5: the reported size\<close>

text \<open>
  C5 holds on iOS, where both numbers are rounded up with \<^verbatim>\<open>ceil\<close>, and fails on Android,
  where \<^verbatim>\<open>performMeasure\<close> divides the widest line and the height by the density and rounds
  nothing. At density 2, for the text \<^verbatim>\<open>Hello\<close> at font size 13 laid out as one line 65
  pixels wide and 31 pixels high, Android reports the width 32.5 and the height 15.5, where
  iOS, for the same text of 32.5 by 15.4375 points, reports 33 and 16.
\<close>

theorem android_size_is_not_rounded_up:
  "android_measureTextSync (example_android_env 2 example_StaticLayout) (Some ''Hello'')
       (Some [(''fontSize'', JNumber 13), (''maxWidth'', JNumber 100),
              (''maxHeight'', JNumber 100)])
     = [(''width'', JNumber (65 / 2)), (''height'', JNumber (31 / 2)),
        (''lineCount'', JNumber 1)]
   \<and> ios_measureTextSync (example_ios_env example_TextKit) (Some ''Hello'')
       (Some [(''fontSize'', JNumber 13), (''maxWidth'', JNumber 100),
              (''maxHeight'', JNumber 100)])
     = [(''width'', JNumber 33), (''height'', JNumber 16), (''lineCount'', JNumber 1)]"
  by code_simp

section \<open>C6: the maximal height\<close>

lemma Math_round_floor:
  assumes "Math_round x \<noteq> Integer_MAX_VALUE" and "0 \<le> x"
  shows "Math_round x = \<lfloor>x + 1 / 2\<rfloor>"
proof -
  from assms(2) have "0 \<le> \<lfloor>x + 1 / 2\<rfloor>" by simp
  moreover have "\<lfloor>x + 1 / 2\<rfloor> < Integer_MAX_VALUE"
  proof (rule ccontr)
    assume "\<not> \<lfloor>x + 1 / 2\<rfloor> < Integer_MAX_VALUE"
    then have "Math_round x = Integer_MAX_VALUE"
      by (simp add: Math_round_def Integer_MAX_VALUE_def Integer_MIN_VALUE_def)
    with assms(1) show False by simp
  qed
  ultimately show ?thesis
    by (simp add: Math_round_def Integer_MAX_VALUE_def Integer_MIN_VALUE_def)
qed

lemma half_up_error:
  fixes x :: rat
  shows "\<bar>of_int \<lfloor>x + 1 / 2\<rfloor> - x\<bar> \<le> 1 / 2"
proof -
  have lower: "of_int \<lfloor>x + 1 / 2\<rfloor> \<le> x + 1 / 2" by (rule of_int_floor_le)
  have upper: "x + 1 / 2 < of_int \<lfloor>x + 1 / 2\<rfloor> + 1"
    using floor_correct [of "x + 1 / 2"] by simp
  from lower upper show ?thesis by linarith
qed

lemma layout_request_ignores_maxHeight:
  "layout_request_of env text0 (opts\<lparr> maxHeight := h \<rparr>) = layout_request_of env text0 opts"
  by (simp add: layout_request_of_def build_paint_def Let_def)

lemma extract_result_clamped:
  assumes "px_limit (maxHeight opts) (density env) \<noteq> Integer_MAX_VALUE"
    and "px_limit (maxHeight opts) (density env) < getHeight layout"
  shows "map_of (extract_result env opts layout) ''height''
           = Some (JNumber (of_int (px_limit (maxHeight opts) (density env)) / density env))"
  using assms by (simp add: extract_result_def Let_def)

text \<open>What the clamp of Android computes: the limit is a whole number of pixels, so the
  clamped height is \<^verbatim>\<open>Math.round(H * density) / density\<close>, at most \<open>1 / (2 * density)\<close>
  away from \<open>H\<close>, and \<open>H\<close> only when \<open>H * density\<close> is a whole number. The request to the
  engine, the width and the line count do not depend on the maximal height.\<close>

lemma clamp_in_whole_pixels:
  "layout_request_of aenv text0 (opts\<lparr> maxHeight := 0 \<rparr>) = layout_request_of aenv text0 opts
   \<and> map_of (extract_result aenv opts layout) ''width''
       = map_of (extract_result aenv (opts\<lparr> maxHeight := 0 \<rparr>) layout) ''width''
   \<and> map_of (extract_result aenv opts layout) ''lineCount''
       = map_of (extract_result aenv (opts\<lparr> maxHeight := 0 \<rparr>) layout) ''lineCount''
   \<and> (0 < density aenv \<longrightarrow> 0 < maxHeight opts \<longrightarrow>
       Math_round (maxHeight opts * density aenv) \<noteq> Integer_MAX_VALUE \<longrightarrow>
       Math_round (maxHeight opts * density aenv) < getHeight layout \<longrightarrow>
         map_of (extract_result aenv opts layout) ''height''
           = Some (JNumber (of_int (Math_round (maxHeight opts * density aenv)) / density aenv))
         \<and> \<bar>of_int (Math_round (maxHeight opts * density aenv)) / density aenv - maxHeight opts\<bar>
             \<le> (1 / 2) / density aenv
         \<and> (maxHeight opts * density aenv = of_int k \<longrightarrow>
              map_of (extract_result aenv opts layout) ''height''
                = Some (JNumber (maxHeight opts))))"
proof (intro conjI impI)
  show "layout_request_of aenv text0 (opts\<lparr> maxHeight := 0 \<rparr>) = layout_request_of aenv text0 opts"
    by (rule layout_request_ignores_maxHeight)
  show "map_of (extract_result aenv opts layout) ''width''
       = map_of (extract_result aenv (opts\<lparr> maxHeight := 0 \<rparr>) layout) ''width''"
    by (simp add: extract_result_width)
  show "map_of (extract_result aenv opts layout) ''lineCount''
       = map_of (extract_result aenv (opts\<lparr> maxHeight := 0 \<rparr>) layout) ''lineCount''"
    by (simp add: extract_result_lineCount)
next
  assume d: "0 < density aenv" and h: "0 < maxHeight opts"
    and m: "Math_round (maxHeight opts * density aenv) \<noteq> Integer_MAX_VALUE"
    and g: "Math_round (maxHeight opts * density aenv) < getHeight layout"
  from h have px: "px_limit (maxHeight opts) (density aenv)
                     = Math_round (maxHeight opts * density aenv)"
    by (simp add: px_limit_def)
  from extract_result_clamped [of opts aenv layout] m g px
  show reported: "map_of (extract_result aenv opts layout) ''height''
           = Some (JNumber (of_int (Math_round (maxHeight opts * density aenv)) / density aenv))"
    by simp
  from d h have "0 \<le> maxHeight opts * density aenv" by simp
  from Math_round_floor [OF m this]
  have fl: "Math_round (maxHeight opts * density aenv) = \<lfloor>maxHeight opts * density aenv + 1 / 2\<rfloor>" .
  have "\<bar>of_int (Math_round (maxHeight opts * density aenv)) - maxHeight opts * density aenv\<bar>
          \<le> 1 / 2"
    unfolding fl by (rule half_up_error)
  from scaled_error [OF d this]
  show "\<bar>of_int (Math_round (maxHeight opts * density aenv)) / density aenv - maxHeight opts\<bar>
             \<le> (1 / 2) / density aenv" .
  assume whole: "maxHeight opts * density aenv = of_int k"
  then have "\<lfloor>maxHeight opts * density aenv + 1 / 2\<rfloor> = k"
    by (simp add: floor_eq_iff)
  with fl whole have "of_int (Math_round (maxHeight opts * density aenv))
                        = maxHeight opts * density aenv" by simp
  with reported d show "map_of (extract_result aenv opts layout) ''height''
                = Some (JNumber (maxHeight opts))" by simp
qed

text \<open>The iOS file has no clamp: the maximal height is the height of the text container
  that TextKit lays the text out in.\<close>

lemma ios_maxHeight_is_container_height:
  "textkit_request_of ienv itext iopts = Inr irequest \<Longrightarrow> 0 < ios_maxHeight iopts
     \<Longrightarrow> snd (container_size irequest) = ios_maxHeight iopts"
  by (simp add: textkit_request_of_fields(1) unbounded_if_not_positive_def)

text \<open>
  C6 fails on Android when the maximal height is not a whole number of pixels. At density
  2.625, with a maximal height of 100 and a text laid out 420 pixels (160 units) high, the
  limit is \<^verbatim>\<open>Math.round(262.5) = 263\<close> pixels and the reported height is 263 / 2.625: more
  than the maximal height it is clamped to, where the claim, the comment at the clamp and
  the documentation of the option say the height is clamped to the maximal height.
\<close>

theorem clamped_height_is_not_maxHeight:
  "android_measureTextSync (example_android_env (21 / 8) example_StaticLayout)
       (Some example_text) (Some example_clamp_options)
     = [(''width'', JNumber 49), (''height'', JNumber (2104 / 21)),
        (''lineCount'', JNumber 4)]
   \<and> (2104 / 21 :: rat) \<noteq> 100"
  by code_simp

section \<open>Which lookup gives the typeface\<close>







text \<open>The typeface of the paint is the resolved one, for the style that the weight and the
  font style ask for.\<close>

lemma request_typeface:
  "layout_request_of env text0 opts = Inr request \<longrightarrow> fontWeight opts = Some w \<longrightarrow>
     typeface (paint request)
       = resolveTypeface env (fontFamily opts)
           (typefaceStyle_of (equalsIgnoreCase ''bold'' (Some w) \<or> numericWeightIsBold w)
              (equalsIgnoreCase ''italic'' (fontStyle opts)))"
  by (auto simp: layout_request_of_def try_bind_def Let_def isBold_of_Some
      buildStaticLayout_def build_paint_def split: if_splits)

section \<open>Which lookup gives the font\<close>

lemma named_font_cases:
  "symbolic_traits u it = {} \<Longrightarrow>
     named_font env name pointSize u it
       = fontWithDescriptor env (fontDescriptorWithName env name pointSize) pointSize"
  "symbolic_traits u it \<noteq> {} \<Longrightarrow>
     fontDescriptorWithSymbolicTraits env (fontDescriptorWithName env name pointSize)
       (symbolic_traits u it) = Some traitDescriptor \<Longrightarrow>
     named_font env name pointSize u it = fontWithDescriptor env traitDescriptor pointSize"
  "symbolic_traits u it \<noteq> {} \<Longrightarrow>
     fontDescriptorWithSymbolicTraits env (fontDescriptorWithName env name pointSize)
       (symbolic_traits u it) = None \<Longrightarrow>
     named_font env name pointSize u it
       = fontWithDescriptor env (fontDescriptorWithName env name pointSize) pointSize"
  by (simp_all add: named_font_def Let_def)

lemma build_font_named:
  "named_font env name pointSize u it = Some font
     \<Longrightarrow> build_font env (Some name) pointSize u it = font"
  by (simp add: build_font_def Let_def)

lemma build_font_system:
  "family0 = None \<or> (\<exists>name. family0 = Some name \<and> named_font env name pointSize u it = None)
     \<Longrightarrow> system_font env pointSize u it = Some font
     \<Longrightarrow> build_font env family0 pointSize u it = font"
  by (auto simp: build_font_def Let_def)


lemma named_plain_wins:
  "symbolic_traits u it = {} \<longrightarrow>
     fontWithDescriptor env (fontDescriptorWithName env name pointSize) pointSize = Some font \<longrightarrow>
       build_font env (Some name) pointSize u it = font"
  by (simp add: build_font_named named_font_cases)

lemma named_traits_win:
  "symbolic_traits u it \<noteq> {} \<longrightarrow>
     fontDescriptorWithSymbolicTraits env (fontDescriptorWithName env name pointSize)
       (symbolic_traits u it) = Some traitDescriptor \<longrightarrow>
     fontWithDescriptor env traitDescriptor pointSize = Some font \<longrightarrow>
       build_font env (Some name) pointSize u it = font"
  by (simp add: build_font_named named_font_cases)

lemma named_without_traits_wins:
  "symbolic_traits u it \<noteq> {} \<longrightarrow>
     fontDescriptorWithSymbolicTraits env (fontDescriptorWithName env name pointSize)
       (symbolic_traits u it) = None \<longrightarrow>
     fontWithDescriptor env (fontDescriptorWithName env name pointSize) pointSize = Some font \<longrightarrow>
       build_font env (Some name) pointSize u it = font"
  by (simp add: build_font_named named_font_cases)


lemma system_wins_without_family:
  "systemFontOfSize_weight env pointSize u = Some font \<longrightarrow>
     build_font env None pointSize u False = font"
  by (simp add: build_font_system system_font_def)





text \<open>The font of the attributed string is the built one.\<close>

lemma request_font:
  "textkit_request_of env text0 opts = Inr request \<longrightarrow>
     nonempty_family (ios_fontFamily opts) = Inr family0 \<longrightarrow>
     isEqualToString (ios_fontStyle opts) ''italic'' = Inr it \<longrightarrow>
       attr_font request
         = build_font env family0 (ios_fontSize opts)
             (resolve_uiFontWeight (ios_fontWeight opts)) it"
  by (auto simp: textkit_request_of_def try_bind_def Let_def)

section \<open>C7: typeface resolution never fails\<close>












section \<open>C8: font weights\<close>

lemma typeface_weight_style:
  "typeface_weight (typefaceStyle_of isBold isItalic) = (if isBold then 700 else 400)"
  by (simp add: typeface_weight_def typefaceStyle_of_def Typeface_BOLD_def
      Typeface_BOLD_ITALIC_def Typeface_ITALIC_def Typeface_NORMAL_def)

lemma android_tier_eq:
  "android_tier weight isItalic
     = Some (if equalsIgnoreCase ''bold'' (Some weight) \<or> numericWeightIsBold weight
             then 700 else 400)"
  by (simp add: android_tier_def isBold_of_Some typeface_weight_style)

lemma android_tier_values:
  "android_tier ''bold'' isItalic = Some 700"
  "android_tier ''normal'' isItalic = Some 400"
  "android_tier ''100'' isItalic = Some 400"
  "android_tier ''200'' isItalic = Some 400"
  "android_tier ''300'' isItalic = Some 400"
  "android_tier ''400'' isItalic = Some 400"
  "android_tier ''500'' isItalic = Some 400"
  "android_tier ''600'' isItalic = Some 700"
  "android_tier ''700'' isItalic = Some 700"
  "android_tier ''800'' isItalic = Some 700"
  "android_tier ''900'' isItalic = Some 700"
  unfolding android_tier_eq by code_simp+

lemma resolve_uiFontWeight_values:
  "resolve_uiFontWeight (JString ''bold'') = UIFontWeightBold"
  "resolve_uiFontWeight (JString ''normal'') = UIFontWeightRegular"
  "resolve_uiFontWeight (JString ''400'') = UIFontWeightRegular"
  "resolve_uiFontWeight (JString ''700'') = UIFontWeightBold"
  "resolve_uiFontWeight (JString ''900'') = UIFontWeightBlack"
  by (simp_all add: resolve_uiFontWeight_def weightMap_def)

text \<open>The tiers of the weights, on both platforms.\<close>

lemma weight_tier_values:
  "android_tier ''bold'' isItalic = Some 700
   \<and> android_tier ''normal'' isItalic = Some 400
   \<and> list_all (android_tier_is_nearest isItalic) numeric_weights
   \<and> android_tier ''900'' isItalic = Some 700
   \<and> (400::int) < 700
   \<and> resolve_uiFontWeight (JString ''bold'') = resolve_uiFontWeight (JString ''700'')
   \<and> resolve_uiFontWeight (JString ''normal'') = resolve_uiFontWeight (JString ''400'')
   \<and> map (\<lambda>entry. resolve_uiFontWeight (JString (fst entry))) numeric_weights
       = UIFontWeight_tiers
   \<and> sorted_wrt (<) UIFontWeight_tiers
   \<and> UIFontWeightBold \<le> resolve_uiFontWeight (JString ''900'')
   \<and> UIFontWeightBold \<le> resolve_uiFontWeight (JString ''bold'')
   \<and> resolve_uiFontWeight (JString ''normal'') < resolve_uiFontWeight (JString ''900'')
   \<and> resolve_uiFontWeight (JString ''normal'') < resolve_uiFontWeight (JString ''bold'')
   \<and> UIFontDescriptorTraitBold
        \<in> symbolic_traits (resolve_uiFontWeight (JString ''900'')) isItalic
   \<and> UIFontDescriptorTraitBold
        \<in> symbolic_traits (resolve_uiFontWeight (JString ''bold'')) isItalic
   \<and> UIFontDescriptorTraitBold
        \<notin> symbolic_traits (resolve_uiFontWeight (JString ''normal'')) isItalic"
proof -
  have near: "list_all (android_tier_is_nearest isItalic) numeric_weights"
    by (simp add: numeric_weights_def android_tier_is_nearest_def android_tier_values
        nearest_tier_def android_tiers_def)
  have tiers: "map (\<lambda>entry. resolve_uiFontWeight (JString (fst entry))) numeric_weights
       = UIFontWeight_tiers"
    by (simp add: numeric_weights_def UIFontWeight_tiers_def resolve_uiFontWeight_def
        weightMap_def)
  have ordered: "sorted_wrt (<) UIFontWeight_tiers"
    by (simp add: UIFontWeight_tiers_def UIFontWeightUltraLight_def UIFontWeightThin_def
        UIFontWeightLight_def UIFontWeightRegular_def UIFontWeightMedium_def
        UIFontWeightSemibold_def UIFontWeightBold_def UIFontWeightHeavy_def
        UIFontWeightBlack_def)
  have order: "UIFontWeightBold \<le> UIFontWeightBlack" "UIFontWeightRegular < UIFontWeightBlack"
    "UIFontWeightRegular < UIFontWeightBold"
    by (simp_all add: UIFontWeightRegular_def UIFontWeightBold_def UIFontWeightBlack_def)
  have traits: "UIFontDescriptorTraitBold \<in> symbolic_traits UIFontWeightBlack isItalic"
    "UIFontDescriptorTraitBold \<in> symbolic_traits UIFontWeightBold isItalic"
    "UIFontDescriptorTraitBold \<notin> symbolic_traits UIFontWeightRegular isItalic"
    using order by (simp_all add: symbolic_traits_def)
  from near tiers ordered order traits show ?thesis
    by (simp add: android_tier_values resolve_uiFontWeight_values)
qed

text \<open>The weight in the typeface and in the font that are laid out.\<close>

lemma android_request_weight:
  "(layout_request_of aenv ltext opts = Inr request \<longrightarrow> fontWeight opts = Some w \<longrightarrow>
        typeface (paint request)
          = resolveTypeface aenv (fontFamily opts)
              (typefaceStyle_of (equalsIgnoreCase ''bold'' (Some w) \<or> numericWeightIsBold w)
                 (equalsIgnoreCase ''italic'' (fontStyle opts)))
        \<and> android_tier w (equalsIgnoreCase ''italic'' (fontStyle opts))
          = Some (typeface_weight
              (typefaceStyle_of (equalsIgnoreCase ''bold'' (Some w) \<or> numericWeightIsBold w)
                 (equalsIgnoreCase ''italic'' (fontStyle opts)))))"
  by (simp add: request_typeface [rule_format] android_tier_eq typeface_weight_style)

lemma android_bold_weights:
  "list_all (\<lambda>w. equalsIgnoreCase ''bold'' (Some w) \<or> numericWeightIsBold w)
        [''bold'', ''600'', ''700'', ''800'', ''900'']"
  by code_simp

lemma android_normal_weights:
  "list_all (\<lambda>w. \<not> (equalsIgnoreCase ''bold'' (Some w) \<or> numericWeightIsBold w))
        [''normal'', ''100'', ''200'', ''300'', ''400'', ''500'']"
  by code_simp

lemma bold_style_weight:
  "typeface_weight (typefaceStyle_of True italic) = 700"
  by (simp add: typeface_weight_style)

lemma normal_style_weight:
  "typeface_weight (typefaceStyle_of False italic) = 400"
  by (simp add: typeface_weight_style)

lemma ios_system_weight:
  "(systemFontOfSize_weight ienv pointSize (resolve_uiFontWeight (JString iw)) = Some font \<longrightarrow>
        build_font ienv None pointSize (resolve_uiFontWeight (JString iw)) False = font)"
  by (rule system_wins_without_family)

lemma ios_bold_face:
  "(UIFontWeightBold \<le> u \<longrightarrow>
      fontDescriptorWithSymbolicTraits ienv (fontDescriptorWithName ienv name pointSize)
        (symbolic_traits u it) = Some traitDescriptor \<longrightarrow>
      fontWithDescriptor ienv traitDescriptor pointSize = Some font \<longrightarrow>
        UIFontDescriptorTraitBold \<in> symbolic_traits u it
        \<and> build_font ienv (Some name) pointSize u it = font)"
proof (intro impI)
  assume u: "UIFontWeightBold \<le> u"
    and d: "fontDescriptorWithSymbolicTraits ienv (fontDescriptorWithName ienv name pointSize)
        (symbolic_traits u it) = Some traitDescriptor"
    and f: "fontWithDescriptor ienv traitDescriptor pointSize = Some font"
  from u have b: "UIFontDescriptorTraitBold \<in> symbolic_traits u it"
    by (simp add: symbolic_traits_def)
  then have "symbolic_traits u it \<noteq> {}" by auto
  from named_traits_win [rule_format, OF this d f] b
  show "UIFontDescriptorTraitBold \<in> symbolic_traits u it
        \<and> build_font ienv (Some name) pointSize u it = font" by simp
qed

lemma ios_no_bold_face:
  "(UIFontWeightBold \<le> u \<longrightarrow>
      fontDescriptorWithSymbolicTraits ienv (fontDescriptorWithName ienv name pointSize)
        (symbolic_traits u False) = None \<longrightarrow>
      fontWithDescriptor ienv (fontDescriptorWithName ienv name pointSize) pointSize
        = Some font \<longrightarrow>
        build_font ienv (Some name) pointSize u False = font
        \<and> build_font ienv (Some name) pointSize (resolve_uiFontWeight (JString ''normal''))
            False = font)"
proof (intro impI)
  assume u: "UIFontWeightBold \<le> u"
    and d: "fontDescriptorWithSymbolicTraits ienv (fontDescriptorWithName ienv name pointSize)
        (symbolic_traits u False) = None"
    and f: "fontWithDescriptor ienv (fontDescriptorWithName ienv name pointSize) pointSize
        = Some font"
  from u have "symbolic_traits u False \<noteq> {}" by (simp add: symbolic_traits_def)
  from named_without_traits_wins [rule_format, OF this d f]
  have bold: "build_font ienv (Some name) pointSize u False = font" .
  have "symbolic_traits (resolve_uiFontWeight (JString ''normal'')) False = {}"
    by (simp add: symbolic_traits_def resolve_uiFontWeight_values UIFontWeightRegular_def
        UIFontWeightBold_def)
  from named_plain_wins [rule_format, OF this f] bold
  show "build_font ienv (Some name) pointSize u False = font
        \<and> build_font ienv (Some name) pointSize (resolve_uiFontWeight (JString ''normal''))
            False = font" by simp
qed

lemma ios_regular_face:
  "(u \<le> UIFontWeightMedium \<longrightarrow>
      fontWithDescriptor ienv (fontDescriptorWithName ienv name pointSize) pointSize
        = Some font \<longrightarrow>
        build_font ienv (Some name) pointSize u False = font)"
proof (intro impI)
  assume u: "u \<le> UIFontWeightMedium"
    and f: "fontWithDescriptor ienv (fontDescriptorWithName ienv name pointSize) pointSize
        = Some font"
  from u have "symbolic_traits u False = {}"
    by (simp add: symbolic_traits_def UIFontWeightMedium_def UIFontWeightBold_def)
  from named_plain_wins [rule_format, OF this f]
  show "build_font ienv (Some name) pointSize u False = font" .
qed

lemma ios_bold_weights:
  "list_all (\<lambda>w. UIFontWeightBold \<le> resolve_uiFontWeight (JString w))
        [''bold'', ''700'', ''800'', ''900'']"
  by code_simp

lemma ios_regular_weights:
  "list_all (\<lambda>w. resolve_uiFontWeight (JString w) \<le> UIFontWeightMedium)
        [''normal'', ''100'', ''200'', ''300'', ''400'', ''500'']"
  by code_simp

lemma ios_request_weight:
  "(textkit_request_of ienv itext iopts = Inr irequest \<longrightarrow>
      nonempty_family (ios_fontFamily iopts) = Inr ifamily \<longrightarrow>
      isEqualToString (ios_fontStyle iopts) ''italic'' = Inr slanted \<longrightarrow>
        attr_font irequest
          = build_font ienv ifamily (ios_fontSize iopts)
              (resolve_uiFontWeight (ios_fontWeight iopts)) slanted)"
  by (rule request_font)

text \<open>
  C8, as the claim states it, fails on iOS for a named family that has no bold face: the
  descriptor with the bold trait is \<^verbatim>\<open>nil\<close>, the file keeps the plain descriptor, and the
  font built for \<^verbatim>\<open>bold\<close> and for \<^verbatim>\<open>900\<close> is the font built for \<^verbatim>\<open>normal\<close>, not a heavier
  one.
\<close>

theorem bold_of_single_face_family_is_normal:
  "map_sum id attr_font
     (textkit_request_of single_face_ios_env (Some ''Hello'')
        (example_family_ios_parsed\<lparr> ios_fontWeight := JString ''bold'' \<rparr>))
     = Inr (''Solo'', 14)
   \<and> map_sum id attr_font
     (textkit_request_of single_face_ios_env (Some ''Hello'')
        (example_family_ios_parsed\<lparr> ios_fontWeight := JString ''900'' \<rparr>))
     = Inr (''Solo'', 14)
   \<and> map_sum id attr_font
     (textkit_request_of single_face_ios_env (Some ''Hello'')
        (example_family_ios_parsed\<lparr> ios_fontWeight := JString ''normal'' \<rparr>))
     = Inr (''Solo'', 14)"
  by code_simp

text \<open>
  C8, amended. The numeric weights are the nine strings \<^verbatim>\<open>100\<close> to \<^verbatim>\<open>900\<close> of the weight map.
  Weight resolution maps \<^verbatim>\<open>bold\<close> as \<^verbatim>\<open>700\<close> and \<^verbatim>\<open>normal\<close> as \<^verbatim>\<open>400\<close>. On Android, for
  every family, the typeface of the paint is resolved with the bold style (tier 700) for
  \<^verbatim>\<open>bold\<close> and the weights from \<^verbatim>\<open>600\<close>, and with the normal style (tier 400) for \<^verbatim>\<open>normal\<close>
  and the weights up to \<^verbatim>\<open>500\<close>: for each numeric weight the nearer of the two tiers. On
  iOS the nine weights are UIKit's nine, in increasing order; without a family the font is
  the system font of that very weight; for a named family only the bold trait is used: it
  is requested for \<^verbatim>\<open>bold\<close>, \<^verbatim>\<open>700\<close>, \<^verbatim>\<open>800\<close> and \<^verbatim>\<open>900\<close>, and the font is then the family's
  bold face when the family has one and otherwise the font built for \<^verbatim>\<open>normal\<close>; for
  \<^verbatim>\<open>normal\<close> and the weights up to \<^verbatim>\<open>500\<close> the font is the family's plain face. So \<^verbatim>\<open>900\<close>
  and \<^verbatim>\<open>bold\<close> resolve to the bold tier, strictly heavier than the tier of \<^verbatim>\<open>normal\<close>,
  wherever the platform can satisfy the bold trait, and to the font of \<^verbatim>\<open>normal\<close> where it
  cannot.
\<close>

theorem font_weight_resolution:
  "(android_tier ''bold'' isItalic = Some 700
   \<and> android_tier ''normal'' isItalic = Some 400
   \<and> list_all (android_tier_is_nearest isItalic) numeric_weights
   \<and> android_tier ''900'' isItalic = Some 700
   \<and> (400::int) < 700
   \<and> resolve_uiFontWeight (JString ''bold'') = resolve_uiFontWeight (JString ''700'')
   \<and> resolve_uiFontWeight (JString ''normal'') = resolve_uiFontWeight (JString ''400'')
   \<and> map (\<lambda>entry. resolve_uiFontWeight (JString (fst entry))) numeric_weights
       = UIFontWeight_tiers
   \<and> sorted_wrt (<) UIFontWeight_tiers
   \<and> UIFontWeightBold \<le> resolve_uiFontWeight (JString ''900'')
   \<and> UIFontWeightBold \<le> resolve_uiFontWeight (JString ''bold'')
   \<and> resolve_uiFontWeight (JString ''normal'') < resolve_uiFontWeight (JString ''900'')
   \<and> resolve_uiFontWeight (JString ''normal'') < resolve_uiFontWeight (JString ''bold'')
   \<and> UIFontDescriptorTraitBold
        \<in> symbolic_traits (resolve_uiFontWeight (JString ''900'')) isItalic
   \<and> UIFontDescriptorTraitBold
        \<in> symbolic_traits (resolve_uiFontWeight (JString ''bold'')) isItalic
   \<and> UIFontDescriptorTraitBold
        \<notin> symbolic_traits (resolve_uiFontWeight (JString ''normal'')) isItalic)
   \<and> (layout_request_of aenv ltext opts = Inr request \<longrightarrow> fontWeight opts = Some w \<longrightarrow>
        typeface (paint request)
          = resolveTypeface aenv (fontFamily opts)
              (typefaceStyle_of (equalsIgnoreCase ''bold'' (Some w) \<or> numericWeightIsBold w)
                 (equalsIgnoreCase ''italic'' (fontStyle opts)))
        \<and> android_tier w (equalsIgnoreCase ''italic'' (fontStyle opts))
          = Some (typeface_weight
              (typefaceStyle_of (equalsIgnoreCase ''bold'' (Some w) \<or> numericWeightIsBold w)
                 (equalsIgnoreCase ''italic'' (fontStyle opts)))))
   \<and> list_all (\<lambda>w. equalsIgnoreCase ''bold'' (Some w) \<or> numericWeightIsBold w)
        [''bold'', ''600'', ''700'', ''800'', ''900'']
   \<and> list_all (\<lambda>w. \<not> (equalsIgnoreCase ''bold'' (Some w) \<or> numericWeightIsBold w))
        [''normal'', ''100'', ''200'', ''300'', ''400'', ''500'']
   \<and> typeface_weight (typefaceStyle_of True italic) = 700
   \<and> typeface_weight (typefaceStyle_of False italic) = 400
   \<and> (systemFontOfSize_weight ienv pointSize (resolve_uiFontWeight (JString iw)) = Some font \<longrightarrow>
        build_font ienv None pointSize (resolve_uiFontWeight (JString iw)) False = font)
   \<and> (UIFontWeightBold \<le> u \<longrightarrow>
      fontDescriptorWithSymbolicTraits ienv (fontDescriptorWithName ienv name pointSize)
        (symbolic_traits u it) = Some traitDescriptor \<longrightarrow>
      fontWithDescriptor ienv traitDescriptor pointSize = Some font \<longrightarrow>
        UIFontDescriptorTraitBold \<in> symbolic_traits u it
        \<and> build_font ienv (Some name) pointSize u it = font)
   \<and> (UIFontWeightBold \<le> u \<longrightarrow>
      fontDescriptorWithSymbolicTraits ienv (fontDescriptorWithName ienv name pointSize)
        (symbolic_traits u False) = None \<longrightarrow>
      fontWithDescriptor ienv (fontDescriptorWithName ienv name pointSize) pointSize
        = Some font \<longrightarrow>
        build_font ienv (Some name) pointSize u False = font
        \<and> build_font ienv (Some name) pointSize (resolve_uiFontWeight (JString ''normal''))
            False = font)
   \<and> (u \<le> UIFontWeightMedium \<longrightarrow>
      fontWithDescriptor ienv (fontDescriptorWithName ienv name pointSize) pointSize
        = Some font \<longrightarrow>
        build_font ienv (Some name) pointSize u False = font)
   \<and> list_all (\<lambda>w. UIFontWeightBold \<le> resolve_uiFontWeight (JString w))
        [''bold'', ''700'', ''800'', ''900'']
   \<and> list_all (\<lambda>w. resolve_uiFontWeight (JString w) \<le> UIFontWeightMedium)
        [''normal'', ''100'', ''200'', ''300'', ''400'', ''500'']
   \<and> (textkit_request_of ienv itext iopts = Inr irequest \<longrightarrow>
      nonempty_family (ios_fontFamily iopts) = Inr ifamily \<longrightarrow>
      isEqualToString (ios_fontStyle iopts) ''italic'' = Inr slanted \<longrightarrow>
        attr_font irequest
          = build_font ienv ifamily (ios_fontSize iopts)
              (resolve_uiFontWeight (ios_fontWeight iopts)) slanted)"
proof -
  have tiers: "android_tier ''bold'' isItalic = Some 700
   \<and> android_tier ''normal'' isItalic = Some 400
   \<and> list_all (android_tier_is_nearest isItalic) numeric_weights
   \<and> android_tier ''900'' isItalic = Some 700
   \<and> (400::int) < 700
   \<and> resolve_uiFontWeight (JString ''bold'') = resolve_uiFontWeight (JString ''700'')
   \<and> resolve_uiFontWeight (JString ''normal'') = resolve_uiFontWeight (JString ''400'')
   \<and> map (\<lambda>entry. resolve_uiFontWeight (JString (fst entry))) numeric_weights
       = UIFontWeight_tiers
   \<and> sorted_wrt (<) UIFontWeight_tiers
   \<and> UIFontWeightBold \<le> resolve_uiFontWeight (JString ''900'')
   \<and> UIFontWeightBold \<le> resolve_uiFontWeight (JString ''bold'')
   \<and> resolve_uiFontWeight (JString ''normal'') < resolve_uiFontWeight (JString ''900'')
   \<and> resolve_uiFontWeight (JString ''normal'') < resolve_uiFontWeight (JString ''bold'')
   \<and> UIFontDescriptorTraitBold
        \<in> symbolic_traits (resolve_uiFontWeight (JString ''900'')) isItalic
   \<and> UIFontDescriptorTraitBold
        \<in> symbolic_traits (resolve_uiFontWeight (JString ''bold'')) isItalic
   \<and> UIFontDescriptorTraitBold
        \<notin> symbolic_traits (resolve_uiFontWeight (JString ''normal'')) isItalic"
    by (rule weight_tier_values)
  have fonts: "(layout_request_of aenv ltext opts = Inr request \<longrightarrow> fontWeight opts = Some w \<longrightarrow>
        typeface (paint request)
          = resolveTypeface aenv (fontFamily opts)
              (typefaceStyle_of (equalsIgnoreCase ''bold'' (Some w) \<or> numericWeightIsBold w)
                 (equalsIgnoreCase ''italic'' (fontStyle opts)))
        \<and> android_tier w (equalsIgnoreCase ''italic'' (fontStyle opts))
          = Some (typeface_weight
              (typefaceStyle_of (equalsIgnoreCase ''bold'' (Some w) \<or> numericWeightIsBold w)
                 (equalsIgnoreCase ''italic'' (fontStyle opts)))))
   \<and> list_all (\<lambda>w. equalsIgnoreCase ''bold'' (Some w) \<or> numericWeightIsBold w)
        [''bold'', ''600'', ''700'', ''800'', ''900'']
   \<and> list_all (\<lambda>w. \<not> (equalsIgnoreCase ''bold'' (Some w) \<or> numericWeightIsBold w))
        [''normal'', ''100'', ''200'', ''300'', ''400'', ''500'']
   \<and> typeface_weight (typefaceStyle_of True italic) = 700
   \<and> typeface_weight (typefaceStyle_of False italic) = 400
   \<and> (systemFontOfSize_weight ienv pointSize (resolve_uiFontWeight (JString iw)) = Some font \<longrightarrow>
        build_font ienv None pointSize (resolve_uiFontWeight (JString iw)) False = font)
   \<and> (UIFontWeightBold \<le> u \<longrightarrow>
      fontDescriptorWithSymbolicTraits ienv (fontDescriptorWithName ienv name pointSize)
        (symbolic_traits u it) = Some traitDescriptor \<longrightarrow>
      fontWithDescriptor ienv traitDescriptor pointSize = Some font \<longrightarrow>
        UIFontDescriptorTraitBold \<in> symbolic_traits u it
        \<and> build_font ienv (Some name) pointSize u it = font)
   \<and> (UIFontWeightBold \<le> u \<longrightarrow>
      fontDescriptorWithSymbolicTraits ienv (fontDescriptorWithName ienv name pointSize)
        (symbolic_traits u False) = None \<longrightarrow>
      fontWithDescriptor ienv (fontDescriptorWithName ienv name pointSize) pointSize
        = Some font \<longrightarrow>
        build_font ienv (Some name) pointSize u False = font
        \<and> build_font ienv (Some name) pointSize (resolve_uiFontWeight (JString ''normal''))
            False = font)
   \<and> (u \<le> UIFontWeightMedium \<longrightarrow>
      fontWithDescriptor ienv (fontDescriptorWithName ienv name pointSize) pointSize
        = Some font \<longrightarrow>
        build_font ienv (Some name) pointSize u False = font)
   \<and> list_all (\<lambda>w. UIFontWeightBold \<le> resolve_uiFontWeight (JString w))
        [''bold'', ''700'', ''800'', ''900'']
   \<and> list_all (\<lambda>w. resolve_uiFontWeight (JString w) \<le> UIFontWeightMedium)
        [''normal'', ''100'', ''200'', ''300'', ''400'', ''500'']
   \<and> (textkit_request_of ienv itext iopts = Inr irequest \<longrightarrow>
      nonempty_family (ios_fontFamily iopts) = Inr ifamily \<longrightarrow>
      isEqualToString (ios_fontStyle iopts) ''italic'' = Inr slanted \<longrightarrow>
        attr_font irequest
          = build_font ienv ifamily (ios_fontSize iopts)
              (resolve_uiFontWeight (ios_fontWeight iopts)) slanted)"
    by (intro conjI)
       (rule android_request_weight android_bold_weights android_normal_weights bold_style_weight normal_style_weight ios_system_weight ios_bold_face ios_no_bold_face ios_regular_face ios_bold_weights ios_regular_weights ios_request_weight)+
  from tiers fonts show ?thesis by (rule conjI)
qed

theorem font_weight_resolution_witness:
  "typeface (paint (projr (layout_request_of bundled_android_env ''Hello''
       (example_family_parsed\<lparr> fontWeight := Some ''900'' \<rparr>)))) = ''monospace:bold''
   \<and> android_tier ''900'' False = Some 700
   \<and> typeface (paint (projr (layout_request_of bundled_android_env ''Hello''
       example_family_parsed))) = ''monospace''
   \<and> android_tier ''normal'' False = Some 400
   \<and> build_font weighted_ios_env None 14 (resolve_uiFontWeight (JString ''900'')) False
       = (''System-Bold'', 14)
   \<and> build_font (example_ios_env example_TextKit) (Some ''Helvetica'') 14
         (resolve_uiFontWeight (JString ''900'')) False = (''Helvetica-Bold'', 14)
   \<and> build_font (example_ios_env example_TextKit) (Some ''Helvetica'') 14
         (resolve_uiFontWeight (JString ''normal'')) False = (''Helvetica'', 14)
   \<and> build_font single_face_ios_env (Some ''Solo'') 14
         (resolve_uiFontWeight (JString ''bold'')) False = (''Solo'', 14)
   \<and> build_font single_face_ios_env (Some ''Solo'') 14
         (resolve_uiFontWeight (JString ''normal'')) False = (''Solo'', 14)"
proof -
  let ?aenv = "bundled_android_env"
  let ?heavy = "example_family_parsed\<lparr> fontWeight := Some ''900'' \<rparr>"
  let ?ienv = "example_ios_env example_TextKit"
  let ?black = "resolve_uiFontWeight (JString ''900'')"
  let ?bold = "resolve_uiFontWeight (JString ''bold'')"
  let ?regular = "resolve_uiFontWeight (JString ''normal'')"
  have r1: "layout_request_of ?aenv ''Hello'' ?heavy
              = Inr (projr (layout_request_of ?aenv ''Hello'' ?heavy))" by code_simp
  have w1: "fontWeight ?heavy = Some ''900''" by simp
  have r2: "layout_request_of ?aenv ''Hello'' example_family_parsed
              = Inr (projr (layout_request_of ?aenv ''Hello'' example_family_parsed))"
    by code_simp
  have w2: "fontWeight example_family_parsed = Some ''normal''" by code_simp
  have v1: "resolveTypeface ?aenv (fontFamily ?heavy)
              (typefaceStyle_of (equalsIgnoreCase ''bold'' (Some ''900'')
                   \<or> numericWeightIsBold ''900'')
                 (equalsIgnoreCase ''italic'' (fontStyle ?heavy))) = ''monospace:bold''"
    and v2: "resolveTypeface ?aenv (fontFamily example_family_parsed)
              (typefaceStyle_of (equalsIgnoreCase ''bold'' (Some ''normal'')
                   \<or> numericWeightIsBold ''normal'')
                 (equalsIgnoreCase ''italic'' (fontStyle example_family_parsed)))
              = ''monospace''"
    and v3: "typeface_weight (typefaceStyle_of (equalsIgnoreCase ''bold'' (Some ''900'')
                   \<or> numericWeightIsBold ''900'')
                 (equalsIgnoreCase ''italic'' (fontStyle ?heavy))) = 700"
    and v4: "typeface_weight (typefaceStyle_of (equalsIgnoreCase ''bold'' (Some ''normal'')
                   \<or> numericWeightIsBold ''normal'')
                 (equalsIgnoreCase ''italic'' (fontStyle example_family_parsed))) = 400"
    and v5: "equalsIgnoreCase ''italic'' (fontStyle ?heavy) = False"
    and v6: "equalsIgnoreCase ''italic'' (fontStyle example_family_parsed) = False"
    by code_simp+
  from font_weight_resolution [THEN conjunct2, THEN conjunct1, rule_format, OF r1 w1] v1 v3 v5
  have A: "typeface (paint (projr (layout_request_of ?aenv ''Hello'' ?heavy)))
             = ''monospace:bold'' \<and> android_tier ''900'' False = Some 700"
    by simp
  from font_weight_resolution [THEN conjunct2, THEN conjunct1, rule_format, OF r2 w2] v2 v4 v6
  have B: "typeface (paint (projr (layout_request_of ?aenv ''Hello'' example_family_parsed)))
             = ''monospace'' \<and> android_tier ''normal'' False = Some 400"
    by simp
  have s1: "systemFontOfSize_weight weighted_ios_env 14 ?black = Some (''System-Bold'', 14)"
    by code_simp
  have C: "build_font weighted_ios_env None 14 ?black False = (''System-Bold'', 14)"
    by (rule font_weight_resolution [THEN conjunct2, THEN conjunct2, THEN conjunct2, THEN conjunct2, THEN conjunct2, THEN conjunct2, THEN conjunct1,
          rule_format, OF s1])
  have h1: "UIFontWeightBold \<le> ?black" and h1': "UIFontWeightBold \<le> ?bold"
    and h1'': "?regular \<le> UIFontWeightMedium" by code_simp+
  have h2: "fontDescriptorWithSymbolicTraits ?ienv (fontDescriptorWithName ?ienv ''Helvetica'' 14)
              (symbolic_traits ?black False) = Some ''Helvetica-Bold''" by code_simp
  have h3: "fontWithDescriptor ?ienv ''Helvetica-Bold'' 14 = Some (''Helvetica-Bold'', 14)"
    by code_simp
  have h4: "fontWithDescriptor ?ienv (fontDescriptorWithName ?ienv ''Helvetica'' 14) 14
              = Some (''Helvetica'', 14)" by code_simp
  from font_weight_resolution [THEN conjunct2, THEN conjunct2, THEN conjunct2, THEN conjunct2, THEN conjunct2, THEN conjunct2, THEN conjunct2, THEN conjunct1,
         rule_format, OF h1 h2 h3]
  have D: "build_font ?ienv (Some ''Helvetica'') 14 ?black False = (''Helvetica-Bold'', 14)"
    by simp
  have E: "build_font ?ienv (Some ''Helvetica'') 14 ?regular False = (''Helvetica'', 14)"
    by (rule font_weight_resolution [THEN conjunct2, THEN conjunct2, THEN conjunct2, THEN conjunct2, THEN conjunct2, THEN conjunct2, THEN conjunct2, THEN conjunct2, THEN conjunct2, THEN conjunct1,
          rule_format, OF h1'' h4])
  have n1: "fontDescriptorWithSymbolicTraits single_face_ios_env
              (fontDescriptorWithName single_face_ios_env ''Solo'' 14)
              (symbolic_traits ?bold False) = None" by code_simp
  have n2: "fontWithDescriptor single_face_ios_env
              (fontDescriptorWithName single_face_ios_env ''Solo'' 14) 14 = Some (''Solo'', 14)"
    by code_simp
  note F = font_weight_resolution [THEN conjunct2, THEN conjunct2, THEN conjunct2, THEN conjunct2, THEN conjunct2, THEN conjunct2, THEN conjunct2, THEN conjunct2, THEN conjunct1,
             rule_format, OF h1' n1 n2]
  from A B C D E F show ?thesis by simp
qed

section \<open>C9: failures of the layout engine\<close>

text \<open>Whatever fails inside the shared function, the promise is rejected with the code
  \<^verbatim>\<open>MEASURE_ERROR\<close> and the message of the exception, and the blocking call returns an object
  whose only key is \<^verbatim>\<open>error\<close>; neither is a success.\<close>

lemma android_failure_is_reported:
  assumes "performMeasure env text0 options0 = Inl e"
  shows "android_measureText env text0 options0 = Rejected ''MEASURE_ERROR'' (getMessage e)"
    and "map fst (android_measureTextSync env text0 options0) = [''error'']"
    and "resolved_value (android_measureText env text0 options0) = None"
    and "returned_value (android_measureTextSync env text0 options0) = None"
  using assms
  by (simp_all add: android_measureText_def android_measureTextSync_def resolved_value_def
      returned_value_def)

lemma ios_failure_is_reported:
  assumes "RNTMPerformMeasure env text0 (case options0 of None \<Rightarrow> [] | Some m \<Rightarrow> m) = Inl e"
  shows "ios_measureText env text0 options0 = Rejected ''MEASURE_ERROR'' (getMessage e)"
    and "resolved_value (ios_measureText env text0 options0) = None"
  using assms
  by (simp_all add: ios_measureText_def resolved_value_def)

lemma ios_sync_failure_is_reported:
  assumes "RNTMPerformMeasure env (Some (case text0 of None \<Rightarrow> [] | Some t \<Rightarrow> t))
             (case options0 of None \<Rightarrow> [] | Some m \<Rightarrow> m) = Inl e"
  shows "\<exists>reason. ios_measureTextSync env text0 options0 = [(''error'', JString reason)]"
  using assms by (simp add: ios_measureTextSync_def)

lemma engine_failure_propagates:
  assumes "parse_options (case options0 of None \<Rightarrow> [] | Some m \<Rightarrow> m) = Inr opts"
    and "layout_request_of env (case text0 of None \<Rightarrow> [] | Some t \<Rightarrow> t) opts = Inr request"
    and "StaticLayout_build env request = Inl e"
  shows "performMeasure env text0 options0 = Inl e"
  using assms by (simp add: performMeasure_def try_bind_def)

text \<open>
  C9 holds but for the message. On Android the message is \<^verbatim>\<open>e.getMessage()\<close>, which is
  \<^verbatim>\<open>null\<close> for an exception thrown without one: the blocking call then returns an object
  whose \<^verbatim>\<open>error\<close> field is \<^verbatim>\<open>null\<close>, not a string, and the promise is rejected with a
  \<^verbatim>\<open>null\<close> message. The blocking path of iOS puts \<^verbatim>\<open>Unknown error\<close> in that case.
\<close>

theorem android_error_field_can_be_null:
  "android_measureTextSync silent_android_env (Some ''Hello'') (Some [])
     = [(''error'', JNull)]
   \<and> android_measureText silent_android_env (Some ''Hello'') (Some [])
     = Rejected ''MEASURE_ERROR'' None
   \<and> ios_measureTextSync silent_ios_env (Some ''Hello'') (Some [(''maxHeight'', JNumber 100)])
     = [(''error'', JString ''Unknown error'')]
   \<and> ios_measureText silent_ios_env (Some ''Hello'') (Some [(''maxHeight'', JNumber 100)])
     = Rejected ''MEASURE_ERROR'' None"
  by code_simp

section \<open>C10: the empty text\<close>

lemma widest_nonpositive: "list_all (\<lambda>w. w \<le> 0) ws \<Longrightarrow> widest ws 0 = 0"
  by (induction ws) simp_all

lemma performMeasure_success:
  assumes "performMeasure env text0 options0 = Inr result"
  shows "\<exists>opts request layout.
           layout_text request = (case text0 of None \<Rightarrow> [] | Some t \<Rightarrow> t)
           \<and> StaticLayout_build env request = Inr layout
           \<and> result = extract_result env opts layout"
  using assms
  by (auto simp: performMeasure_def try_bind_def Let_def
      dest: layout_request_of_fields(5) split: sum.splits)

lemma RNTMPerformMeasure_success:
  assumes "RNTMPerformMeasure env text0 m = Inr result"
  shows "\<exists>request layout.
           storage_string request = (case text0 of None \<Rightarrow> [] | Some t \<Rightarrow> t)
           \<and> TextKit_layout env request = Inr layout
           \<and> result = ios_result layout"
  using assms
  by (auto simp: RNTMPerformMeasure_def try_bind_def
      dest: textkit_request_of_fields(3) split: sum.splits)

lemma android_empty_text:
  assumes c: "StaticLayout_lays_out_empty_text env c"
    and t: "text0 = None \<or> text0 = Some []"
    and r: "performMeasure env text0 options0 = Inr result"
  shows "map_of result ''width'' = Some (JNumber 0)"
    and "map_of result ''lineCount'' = Some (JNumber (of_nat c))"
proof -
  from performMeasure_success [OF r] obtain opts request layout
    where q: "layout_text request = (case text0 of None \<Rightarrow> [] | Some t \<Rightarrow> t)"
      and b: "StaticLayout_build env request = Inr layout"
      and e: "result = extract_result env opts layout" by blast
  from q t have "layout_text request = []" by auto
  with c b have w: "list_all (\<lambda>w. w \<le> 0) (lineWidths layout)"
    and n: "length (lineWidths layout) = c"
    by (auto simp: StaticLayout_lays_out_empty_text_def)
  from w e show "map_of result ''width'' = Some (JNumber 0)"
    by (simp add: extract_result_def Let_def widest_nonpositive)
  from n e show "map_of result ''lineCount'' = Some (JNumber (of_nat c))"
    by (simp add: extract_result_lineCount)
qed

lemma ios_empty_text:
  assumes c: "TextKit_lays_out_empty_text env c"
    and t: "text0 = None \<or> text0 = Some []"
    and r: "RNTMPerformMeasure env text0 m = Inr result"
  shows "map_of result ''width'' = Some (JNumber 0)"
    and "map_of result ''lineCount'' = Some (JNumber (of_nat c))"
proof -
  from RNTMPerformMeasure_success [OF r] obtain request layout
    where q: "storage_string request = (case text0 of None \<Rightarrow> [] | Some t \<Rightarrow> t)"
      and b: "TextKit_layout env request = Inr layout"
      and e: "result = ios_result layout" by blast
  from q t have "storage_string request = []" by auto
  with c b have w: "fst (usedRect_size layout) = 0"
    and n: "length (lineFragments layout) = c"
    by (auto simp: TextKit_lays_out_empty_text_def)
  from w e show "map_of result ''width'' = Some (JNumber 0)"
    by (simp add: ios_result_fields)
  from n e show "map_of result ''lineCount'' = Some (JNumber (of_nat c))"
    by (simp add: ios_result_fields)
qed

text \<open>
  C10. On a platform whose engine lays an empty text out as \<open>c\<close> lines of no width, every
  successful measurement of the empty text (or of a missing text), natively or through
  the facade, with any options, reports the width 0 and the line count \<open>c\<close>: the module
  adds nothing to the widest line and passes the engine's line count on. The convention
  \<open>c\<close> is the engine's: one line for \<^verbatim>\<open>StaticLayout\<close>, no line fragment for TextKit.
\<close>

theorem empty_text_has_no_width:
  "(StaticLayout_lays_out_empty_text aenv c \<longrightarrow> text0 = None \<or> text0 = Some [] \<longrightarrow>
      performMeasure aenv text0 options0 = Inr result \<longrightarrow>
        map_of result ''width'' = Some (JNumber 0)
        \<and> map_of result ''lineCount'' = Some (JNumber (of_nat c)))
   \<and> (StaticLayout_lays_out_empty_text aenv c \<longrightarrow>
      measureText (android_measureText aenv) [] options = Resolved result \<longrightarrow>
        map_of result ''width'' = Some (JNumber 0)
        \<and> map_of result ''lineCount'' = Some (JNumber (of_nat c))
        \<and> measureTextSync (android_measureTextSync aenv) [] options = result)
   \<and> (TextKit_lays_out_empty_text ienv ic \<longrightarrow> text0 = None \<or> text0 = Some [] \<longrightarrow>
      RNTMPerformMeasure ienv text0 im = Inr iresult \<longrightarrow>
        map_of iresult ''width'' = Some (JNumber 0)
        \<and> map_of iresult ''lineCount'' = Some (JNumber (of_nat ic)))
   \<and> (TextKit_lays_out_empty_text ienv ic \<longrightarrow>
      measureText (ios_measureText ienv) [] options = Resolved iresult \<longrightarrow>
        map_of iresult ''width'' = Some (JNumber 0)
        \<and> map_of iresult ''lineCount'' = Some (JNumber (of_nat ic))
        \<and> measureTextSync (ios_measureTextSync ienv) [] options = iresult)"
proof (intro conjI impI)
  assume c: "StaticLayout_lays_out_empty_text aenv c"
    and t: "text0 = None \<or> text0 = Some []"
    and r: "performMeasure aenv text0 options0 = Inr result"
  from android_empty_text [OF c t r]
  show "map_of result ''width'' = Some (JNumber 0)"
    and "map_of result ''lineCount'' = Some (JNumber (of_nat c))" .
next
  assume c: "StaticLayout_lays_out_empty_text aenv c"
    and m: "measureText (android_measureText aenv) [] options = Resolved result"
  from m have r: "performMeasure aenv (Some []) (Some (sanitize options)) = Inr result"
    by (simp add: measureText_def android_measureText_def split: sum.splits)
  from android_empty_text [OF c _ r]
  show "map_of result ''width'' = Some (JNumber 0)"
    and "map_of result ''lineCount'' = Some (JNumber (of_nat c))" by simp_all
  from r show "measureTextSync (android_measureTextSync aenv) [] options = result"
    by (simp add: measureTextSync_def android_measureTextSync_def)
next
  assume c: "TextKit_lays_out_empty_text ienv ic"
    and t: "text0 = None \<or> text0 = Some []"
    and r: "RNTMPerformMeasure ienv text0 im = Inr iresult"
  from ios_empty_text [OF c t r]
  show "map_of iresult ''width'' = Some (JNumber 0)"
    and "map_of iresult ''lineCount'' = Some (JNumber (of_nat ic))" .
next
  assume c: "TextKit_lays_out_empty_text ienv ic"
    and m: "measureText (ios_measureText ienv) [] options = Resolved iresult"
  from m have r: "RNTMPerformMeasure ienv (Some []) (sanitize options) = Inr iresult"
    by (simp add: measureText_def ios_measureText_def split: sum.splits)
  from ios_empty_text [OF c _ r]
  show "map_of iresult ''width'' = Some (JNumber 0)"
    and "map_of iresult ''lineCount'' = Some (JNumber (of_nat ic))" by simp_all
  from r show "measureTextSync (ios_measureTextSync ienv) [] options = iresult"
    by (simp add: measureTextSync_def ios_measureTextSync_def)
qed

lemma example_StaticLayout_empty_text:
  "StaticLayout_lays_out_empty_text (example_android_env dens example_StaticLayout) 1"
  by (auto simp: StaticLayout_lays_out_empty_text_def example_android_env_def
      example_StaticLayout_def Let_def split: if_splits)

lemma example_TextKit_empty_text:
  "TextKit_lays_out_empty_text (example_ios_env example_TextKit) 0"
  by (auto simp: TextKit_lays_out_empty_text_def example_ios_env_def example_TextKit_def
      Let_def line_lengths_def take_lines_def)

theorem empty_text_has_no_width_witness:
  "StaticLayout_lays_out_empty_text (example_android_env 2 example_StaticLayout) 1
   \<and> performMeasure (example_android_env 2 example_StaticLayout) (Some []) (Some example_options)
       = Inr [(''width'', JNumber 0), (''height'', JNumber 20), (''lineCount'', JNumber 1)]
   \<and> measureText (android_measureText (example_android_env 2 example_StaticLayout)) []
         example_clamp_options
       = Resolved [(''width'', JNumber 0), (''height'', JNumber 40), (''lineCount'', JNumber 1)]
   \<and> TextKit_lays_out_empty_text (example_ios_env example_TextKit) 0
   \<and> RNTMPerformMeasure (example_ios_env example_TextKit) None example_clamp_options
       = Inr [(''width'', JNumber 0), (''height'', JNumber 0), (''lineCount'', JNumber 0)]
   \<and> measureText (ios_measureText (example_ios_env example_TextKit)) [] example_clamp_options
       = Resolved [(''width'', JNumber 0), (''height'', JNumber 0), (''lineCount'', JNumber 0)]"
proof -
  let ?aenv = "example_android_env 2 example_StaticLayout"
  let ?ienv = "example_ios_env example_TextKit"
  let ?a = "[(''width'', JNumber 0), (''height'', JNumber 20), (''lineCount'', JNumber 1)]"
  let ?b = "[(''width'', JNumber 0), (''height'', JNumber 40), (''lineCount'', JNumber 1)]"
  let ?i = "[(''width'', JNumber 0), (''height'', JNumber 0), (''lineCount'', JNumber 0)]"
  have ca: "StaticLayout_lays_out_empty_text ?aenv 1" by (rule example_StaticLayout_empty_text)
  have ci: "TextKit_lays_out_empty_text ?ienv 0" by (rule example_TextKit_empty_text)
  have a: "performMeasure ?aenv (Some []) (Some example_options) = Inr ?a" by code_simp
  have b: "measureText (android_measureText ?aenv) [] example_clamp_options = Resolved ?b"
    by code_simp
  have i: "RNTMPerformMeasure ?ienv None example_clamp_options = Inr ?i" by code_simp
  have j: "measureText (ios_measureText ?ienv) [] example_clamp_options = Resolved ?i"
    by code_simp
  note T = empty_text_has_no_width
             [of ?aenv 1 "Some []" "Some example_options" ?a example_clamp_options
                ?ienv 0 example_clamp_options ?i]
  from T ca a have "map_of ?a ''width'' = Some (JNumber 0)" by simp
  with ca ci a b i j show ?thesis by simp
qed

end
